theory Spec2Isabelle
  imports Main "HOL-Library.Word"
begin

unbundle bit_operations_syntax

section \<open>The ln utility (src/src/ln.c)\<close>

text \<open>
  A shallow embedding of \<^verbatim>\<open>ln.c\<close> as built without \<^verbatim>\<open>TEST\<close> (the fault-injection
  seams of the test suite are compiled out). The program talks to the operating system
  through \<^verbatim>\<open>stat\<close>, \<^verbatim>\<open>lstat\<close>, \<^verbatim>\<open>unlink\<close>, \<^verbatim>\<open>symlink\<close>, \<^verbatim>\<open>linkat\<close>, \<^verbatim>\<open>link\<close>,
  \<^verbatim>\<open>strdup\<close> and \<^verbatim>\<open>malloc\<close>. The embedding is parametric in these calls: an
  \<open>'w os\<close> gives each call's result on a world \<open>'w\<close>, and every theorem holds for every
  such operating system. Each call the program makes is appended to a trace together
  with its result, so that "no removal" or "exactly one link operation" are statements
  about the trace.
\<close>

subsection \<open>Data\<close>

type_synonym path = string

text \<open>\<^verbatim>\<open>size_t\<close> on an LP64 platform.\<close>

type_synonym size_t = "64 word"

definition SIZE_MAX :: size_t where "SIZE_MAX = 0xFFFFFFFFFFFFFFFF"

text \<open>The fields of \<^verbatim>\<open>struct stat\<close> the program reads.\<close>

record stat =
  st_dev :: "64 word"
  st_ino :: "64 word"
  st_mode :: "32 word"

definition S_IFMT :: "32 word" where "S_IFMT = 0xF000"
definition S_IFDIR :: "32 word" where "S_IFDIR = 0x4000"
definition S_IFLNK :: "32 word" where "S_IFLNK = 0xA000"

definition S_ISDIR :: "32 word \<Rightarrow> bool" where
  "S_ISDIR m = (m AND S_IFMT = S_IFDIR)"

definition S_ISLNK :: "32 word \<Rightarrow> bool" where
  "S_ISLNK m = (m AND S_IFMT = S_IFLNK)"

definition AT_FDCWD :: int where "AT_FDCWD = - 100"
definition AT_SYMLINK_FOLLOW :: int where "AT_SYMLINK_FOLLOW = 0x400"

definition EXIT_SUCCESS :: int where "EXIT_SUCCESS = 0"
definition EXIT_FAILURE :: int where "EXIT_FAILURE = 1"

definition LN_FLAG_REMOVE_DEST :: "32 word" where "LN_FLAG_REMOVE_DEST = push_bit 0 1"
definition LN_FLAG_FOLLOW_SYMBOLIC :: "32 word" where "LN_FLAG_FOLLOW_SYMBOLIC = push_bit 1 1"
definition LN_FLAG_SYMBOLIC :: "32 word" where "LN_FLAG_SYMBOLIC = push_bit 2 1"

text \<open>\<^verbatim>\<open>struct ln_ctx\<close>.\<close>

record ln_ctx =
  status_code :: int
  flags :: "32 word"

text \<open>
  What the process does that can be observed from outside: every system and library
  call with its result, and every diagnostic of \<^verbatim>\<open>ln_warn\<close> (the flag says whether
  the text of \<^verbatim>\<open>errno\<close> is appended, the string is the formatted message).
\<close>

datatype event =
    Stat path bool
  | Lstat path bool
  | Unlink path int
  | Symlink path path int
  | Linkat int path int path int int
  | Link path path int
  | Alloc nat bool
  | Warn bool string

text \<open>
  The operating system: what each call returns in a world, and the world after it.
  \<^verbatim>\<open>stat\<close> and \<^verbatim>\<open>lstat\<close> only read (\<open>None\<close> is the return value \<open>-1\<close>);
  \<open>os_alloc\<close> decides whether a request of that many bytes (by \<^verbatim>\<open>malloc\<close> or
  \<^verbatim>\<open>strdup\<close>) succeeds.
\<close>

record 'w os =
  os_stat :: "'w \<Rightarrow> path \<Rightarrow> stat option"
  os_lstat :: "'w \<Rightarrow> path \<Rightarrow> stat option"
  os_unlink :: "'w \<Rightarrow> path \<Rightarrow> int \<times> 'w"
  os_symlink :: "'w \<Rightarrow> path \<Rightarrow> path \<Rightarrow> int \<times> 'w"
  os_linkat :: "'w \<Rightarrow> int \<Rightarrow> path \<Rightarrow> int \<Rightarrow> path \<Rightarrow> int \<Rightarrow> int \<times> 'w"
  os_link :: "'w \<Rightarrow> path \<Rightarrow> path \<Rightarrow> int \<times> 'w"
  os_alloc :: "'w \<Rightarrow> nat \<Rightarrow> bool \<times> 'w"

text \<open>The state of the process: the context, the world and the trace so far.\<close>

record 'w proc =
  ctx :: ln_ctx
  world :: 'w
  trace :: "event list"

text \<open>Undefined behaviour of the C program is a fault: the run has no result.\<close>

datatype fault = OutOfBounds string size_t

subsection \<open>System calls, logged\<close>

definition sys_stat :: "'w os \<Rightarrow> path \<Rightarrow> 'w proc \<Rightarrow> stat option \<times> 'w proc" where
  "sys_stat os p s =
     (let r = os_stat os (world s) p
      in (r, s\<lparr>trace := trace s @ [Stat p (r \<noteq> None)]\<rparr>))"

definition sys_lstat :: "'w os \<Rightarrow> path \<Rightarrow> 'w proc \<Rightarrow> stat option \<times> 'w proc" where
  "sys_lstat os p s =
     (let r = os_lstat os (world s) p
      in (r, s\<lparr>trace := trace s @ [Lstat p (r \<noteq> None)]\<rparr>))"

definition sys_unlink :: "'w os \<Rightarrow> path \<Rightarrow> 'w proc \<Rightarrow> int \<times> 'w proc" where
  "sys_unlink os p s =
     (case os_unlink os (world s) p of
        (rc, w) \<Rightarrow> (rc, s\<lparr>world := w, trace := trace s @ [Unlink p rc]\<rparr>))"

definition sys_symlink :: "'w os \<Rightarrow> path \<Rightarrow> path \<Rightarrow> 'w proc \<Rightarrow> int \<times> 'w proc" where
  "sys_symlink os p1 p2 s =
     (case os_symlink os (world s) p1 p2 of
        (rc, w) \<Rightarrow> (rc, s\<lparr>world := w, trace := trace s @ [Symlink p1 p2 rc]\<rparr>))"

definition sys_linkat ::
  "'w os \<Rightarrow> int \<Rightarrow> path \<Rightarrow> int \<Rightarrow> path \<Rightarrow> int \<Rightarrow> 'w proc \<Rightarrow> int \<times> 'w proc" where
  "sys_linkat os fd1 p1 fd2 p2 flag s =
     (case os_linkat os (world s) fd1 p1 fd2 p2 flag of
        (rc, w) \<Rightarrow> (rc, s\<lparr>world := w, trace := trace s @ [Linkat fd1 p1 fd2 p2 flag rc]\<rparr>))"

definition sys_link :: "'w os \<Rightarrow> path \<Rightarrow> path \<Rightarrow> 'w proc \<Rightarrow> int \<times> 'w proc" where
  "sys_link os p1 p2 s =
     (case os_link os (world s) p1 p2 of
        (rc, w) \<Rightarrow> (rc, s\<lparr>world := w, trace := trace s @ [Link p1 p2 rc]\<rparr>))"

definition sys_alloc :: "'w os \<Rightarrow> nat \<Rightarrow> 'w proc \<Rightarrow> bool \<times> 'w proc" where
  "sys_alloc os n s =
     (case os_alloc os (world s) n of
        (ok, w) \<Rightarrow> (ok, s\<lparr>world := w, trace := trace s @ [Alloc n ok]\<rparr>))"

subsection \<open>C strings\<close>

text \<open>
  A C string is the list of its characters before the terminating NUL; the array that
  holds it has one more byte. \<^verbatim>\<open>s[i]\<close> is defined for \<open>i \<le> length s\<close> and is
  undefined behaviour beyond.
\<close>

definition strlen :: "string \<Rightarrow> size_t" where
  "strlen s = of_nat (length s)"

definition c_index :: "string \<Rightarrow> size_t \<Rightarrow> fault + char" where
  "c_index s i =
     (if unat i < length s then Inr (s ! unat i)
      else if unat i = length s then Inr (CHR 0x00)
      else Inl (OutOfBounds s i))"

text \<open>
  \<^verbatim>\<open>basename\<close> of \<^verbatim>\<open>libgen.h\<close>, as POSIX specifies it: the empty string gives
  \<^verbatim>\<open>.\<close>, a string of slashes gives \<^verbatim>\<open>/\<close>, otherwise trailing slashes are removed and
  the component after the last remaining slash is returned.
\<close>

definition strip_trailing_slashes :: "string \<Rightarrow> string" where
  "strip_trailing_slashes p = rev (dropWhile (\<lambda>c. c = CHR ''/'') (rev p))"

definition basename :: "string \<Rightarrow> string" where
  "basename p =
     (if p = [] then ''.''
      else let q = strip_trailing_slashes p
           in if q = [] then ''/''
              else rev (takeWhile (\<lambda>c. c \<noteq> CHR ''/'') (rev q)))"

subsection \<open>ln\_warn, si\_add\_size\_t\<close>

definition ln_warn :: "bool \<Rightarrow> string \<Rightarrow> 'w proc \<Rightarrow> 'w proc" where
  "ln_warn errno_msg msg s =
     s\<lparr>ctx := (ctx s)\<lparr>status_code := EXIT_FAILURE\<rparr>,
       trace := trace s @ [Warn errno_msg msg]\<rparr>"

text \<open>The pair is the return value and what is stored in \<^verbatim>\<open>*result\<close>.\<close>

definition si_add_size_t :: "size_t \<Rightarrow> size_t \<Rightarrow> bool \<times> size_t" where
  "si_add_size_t a b =
     (let result = a + b;
          wrap = (if result < a then True else False)
      in (\<not> wrap, result))"

subsection \<open>ln\_path\_target\_concat\<close>

text \<open>
  \<open>Inr None\<close> is the return value \<^verbatim>\<open>NULL\<close>. \<^verbatim>\<open>strdup\<close> asks for the bytes of the
  string and its terminator. The three \<^verbatim>\<open>stpcpy\<close> calls write the directory, the slash
  (when the character read at \<^verbatim>\<open>target_dir[slen_target_dir - 1]\<close> is not a slash) and
  the base name; the index is computed in \<^verbatim>\<open>size_t\<close>, so it wraps for an empty
  directory.
\<close>

definition ln_path_target_concat ::
  "'w os \<Rightarrow> path \<Rightarrow> path \<Rightarrow> 'w proc \<Rightarrow> fault + (path option \<times> 'w proc)" where
  "ln_path_target_concat os target_dir source_file s =
     (case sys_alloc os (length source_file + 1) s of
        (False, s1) \<Rightarrow> Inr (None, s1)
      | (True, s1) \<Rightarrow>
          (let source_file_copy = source_file;
               bname_source_file = basename source_file_copy;
               slen_target_dir = strlen target_dir;
               slen_bname_source_file = strlen bname_source_file
           in case si_add_size_t slen_target_dir slen_bname_source_file of
                (False, concat_len) \<Rightarrow> Inr (None, s1)
              | (True, concat_len) \<Rightarrow>
                  (case si_add_size_t concat_len 2 of
                     (False, concat_len) \<Rightarrow> Inr (None, s1)
                   | (True, concat_len) \<Rightarrow>
                       (case sys_alloc os (unat concat_len) s1 of
                          (False, s2) \<Rightarrow> Inr (None, s2)
                        | (True, s2) \<Rightarrow>
                            (case c_index target_dir (slen_target_dir - 1) of
                               Inl f \<Rightarrow> Inl f
                             | Inr c \<Rightarrow>
                                 Inr (Some (target_dir
                                            @ (if c \<noteq> CHR ''/'' then ''/'' else [])
                                            @ bname_source_file), s2))))))"

subsection \<open>ln\_same\_file, ln\_remove\_dest, ln\_create\_link, ln\_target\_dir\<close>

definition ln_same_file :: "stat \<Rightarrow> stat \<Rightarrow> bool" where
  "ln_same_file sb1 sb2 =
     (if st_dev sb1 = st_dev sb2 \<and> st_ino sb1 = st_ino sb2 then True else False)"

definition ln_remove_dest :: "'w os \<Rightarrow> stat \<Rightarrow> path \<Rightarrow> 'w proc \<Rightarrow> bool \<times> 'w proc" where
  "ln_remove_dest os source_sb path_dest s =
     (case sys_stat os path_dest s of
        (None, s1) \<Rightarrow> (True, s1)
      | (Some dest_sb, s1) \<Rightarrow>
          if flags (ctx s1) AND LN_FLAG_REMOVE_DEST \<noteq> 0 then
            if ln_same_file source_sb dest_sb then
              (False, ln_warn False (''source and destination same: '' @ path_dest) s1)
            else
              (case sys_unlink os path_dest s1 of
                 (rc, s2) \<Rightarrow>
                   if rc \<noteq> 0 then
                     (False, ln_warn True (''failed to unlink destination: '' @ path_dest) s2)
                   else (True, s2))
          else (False, ln_warn False (''destination already exists: '' @ path_dest) s1))"

definition ln_create_link :: "'w os \<Rightarrow> path \<Rightarrow> path \<Rightarrow> 'w proc \<Rightarrow> 'w proc" where
  "ln_create_link os path_source path_dest s =
     (case sys_lstat os path_source s of
        (None, s1) \<Rightarrow> ln_warn True (''lstat('' @ path_source @ '')'') s1
      | (Some source_sb, s1) \<Rightarrow>
          (case ln_remove_dest os source_sb path_dest s1 of
             (False, s2) \<Rightarrow> s2
           | (True, s2) \<Rightarrow>
               (case (if flags (ctx s2) AND LN_FLAG_SYMBOLIC \<noteq> 0 then
                        sys_symlink os path_source path_dest s2
                      else if S_ISLNK (st_mode source_sb) then
                        (let linkat_flag =
                               (if flags (ctx s2) AND LN_FLAG_FOLLOW_SYMBOLIC \<noteq> 0
                                then AT_SYMLINK_FOLLOW else 0)
                         in sys_linkat os AT_FDCWD path_source AT_FDCWD path_dest linkat_flag s2)
                      else sys_link os path_source path_dest s2) of
                  (rc, s3) \<Rightarrow>
                    if rc \<noteq> 0 then
                      ln_warn True
                        (''failed to create link: '' @ path_source @ '' - '' @ path_dest) s3
                    else s3)))"

definition ln_target_dir :: "'w os \<Rightarrow> path \<Rightarrow> path \<Rightarrow> 'w proc \<Rightarrow> fault + 'w proc" where
  "ln_target_dir os source_file target_dir s =
     (case ln_path_target_concat os target_dir source_file s of
        Inl f \<Rightarrow> Inl f
      | Inr (None, s1) \<Rightarrow> Inr (ln_warn True ''alloc'' s1)
      | Inr (Some path_dest, s1) \<Rightarrow> Inr (ln_create_link os source_file path_dest s1))"

subsection \<open>ln\_main\<close>

text \<open>
  \<^verbatim>\<open>getopt\<close> of \<^verbatim>\<open>unistd.h\<close>, as POSIX specifies it for an option string without
  option arguments: scanning starts after \<^verbatim>\<open>argv[0]\<close> and stops at the first element
  that is not an option (it does not start with \<^verbatim>\<open>-\<close>, or is \<^verbatim>\<open>-\<close> alone) or after
  \<^verbatim>\<open>--\<close>; every character of an option element is returned, \<^verbatim>\<open>?\<close> in place of a
  character that is not in the option string. The result is the list of the values
  \<^verbatim>\<open>getopt\<close> returns before \<open>-1\<close>, and the elements from \<^verbatim>\<open>optind\<close> on.
\<close>

definition getopt_char :: "string \<Rightarrow> char \<Rightarrow> char" where
  "getopt_char optstring c =
     (if c \<in> set optstring \<and> c \<noteq> CHR '':'' then c else CHR ''?'')"

fun getopt :: "string \<Rightarrow> string list \<Rightarrow> char list \<times> string list" where
  "getopt optstring [] = ([], [])"
| "getopt optstring (a # args) =
     (if a = ''--'' then ([], args)
      else case a of
             c # d # cs \<Rightarrow>
               if c = CHR ''-'' then
                 (case getopt optstring args of
                    (opts, rest) \<Rightarrow> (map (getopt_char optstring) (d # cs) @ opts, rest))
               else ([], a # args)
           | _ \<Rightarrow> ([], a # args))"

text \<open>The body of the \<^verbatim>\<open>switch\<close> in the option loop.\<close>

definition ln_option :: "char \<Rightarrow> ln_ctx \<Rightarrow> ln_ctx" where
  "ln_option c x =
     (if c = CHR ''f'' then x\<lparr>flags := flags x OR LN_FLAG_REMOVE_DEST\<rparr>
      else if c = CHR ''L'' then x\<lparr>flags := flags x OR LN_FLAG_FOLLOW_SYMBOLIC\<rparr>
      else if c = CHR ''P'' then x\<lparr>flags := flags x AND NOT LN_FLAG_FOLLOW_SYMBOLIC\<rparr>
      else if c = CHR ''s'' then x\<lparr>flags := flags x OR LN_FLAG_SYMBOLIC\<rparr>
      else x\<lparr>status_code := EXIT_FAILURE\<rparr>)"

text \<open>The option loop, from the zeroed context.\<close>

definition ln_options :: "char list \<Rightarrow> ln_ctx" where
  "ln_options opts = fold ln_option opts \<lparr>status_code = 0, flags = 0\<rparr>"

text \<open>The \<^verbatim>\<open>for\<close> loop over the source operands of the directory form.\<close>

fun ln_target_dirs :: "'w os \<Rightarrow> path list \<Rightarrow> path \<Rightarrow> 'w proc \<Rightarrow> fault + 'w proc" where
  "ln_target_dirs os [] target_dir s = Inr s"
| "ln_target_dirs os (source_file # rest) target_dir s =
     (case ln_target_dir os source_file target_dir s of
        Inl f \<Rightarrow> Inl f
      | Inr s1 \<Rightarrow> ln_target_dirs os rest target_dir s1)"

text \<open>
  \<open>ln_main os argv w\<close> runs the program on the argument vector \<open>argv\<close> (with
  \<^verbatim>\<open>argv[0]\<close>) in the world \<open>w\<close>; it gives the exit status and the final state.
  \<open>operands\<close> is \<^verbatim>\<open>argv\<close> after \<^verbatim>\<open>argv += optind\<close>, \<open>argc\<close> its length.
\<close>

definition ln_main :: "'w os \<Rightarrow> string list \<Rightarrow> 'w \<Rightarrow> fault + (int \<times> 'w proc)" where
  "ln_main os argv w =
     (case getopt ''fLPs'' (tl argv) of
        (opts, operands) \<Rightarrow>
          (let s0 = \<lparr>ctx = ln_options opts, world = w, trace = []\<rparr>;
               argc = length operands
           in if status_code (ctx s0) = EXIT_SUCCESS then
                if argc < 2 then
                  (let s1 = ln_warn False ''must have >=2 file arguments'' s0
                   in Inr (status_code (ctx s1), s1))
                else
                  (case (case sys_stat os (operands ! (argc - 1)) s0 of
                           (Some target_sb, s1) \<Rightarrow>
                             if S_ISDIR (st_mode target_sb) then
                               (case ln_target_dirs os (take (argc - 1) operands)
                                       (operands ! (argc - 1)) s1 of
                                  Inl f \<Rightarrow> Inl f
                                | Inr s2 \<Rightarrow> Inr (True, s2))
                             else if argc > 2 then
                               Inr (False,
                                    ln_warn False
                                      ''final operand must be directory if > 2 operands'' s1)
                             else Inr (False, s1)
                         | (None, s1) \<Rightarrow> Inr (False, s1)) of
                     Inl f \<Rightarrow> Inl f
                   | Inr (is_target_dir, s2) \<Rightarrow>
                       (let s3 =
                              (if is_target_dir = False
                                  \<and> status_code (ctx s2) = EXIT_SUCCESS then
                                 if argc \<noteq> 2 then
                                   ln_warn False
                                     ''only 2 operands allowed if final operand not a directory''
                                     s2
                                 else ln_create_link os (operands ! 0) (operands ! 1) s2
                               else s2)
                        in Inr (status_code (ctx s3), s3)))
              else Inr (status_code (ctx s0), s0)))"

subsection \<open>A small file system to run the program on\<close>

text \<open>
  A concrete operating system for evaluating the definitions: the world is a table from
  paths to their \<^verbatim>\<open>struct stat\<close>. The empty path names nothing (\<^verbatim>\<open>ENOENT\<close>), removing
  an entry under \<^verbatim>\<open>ro/\<close> fails, allocation never fails, and \<^verbatim>\<open>stat\<close> does not
  resolve symbolic links.
\<close>

type_synonym table = "(path \<times> stat) list"

definition table_add :: "table \<Rightarrow> path \<Rightarrow> path \<Rightarrow> int \<times> table" where
  "table_add w p1 p2 =
     (case (map_of w p1, map_of w p2) of
        (Some sb, None) \<Rightarrow> (0, (p2, sb) # w)
      | _ \<Rightarrow> (- 1, w))"

definition table_os :: "table os" where
  "table_os =
     \<lparr>os_stat = (\<lambda>w p. if p = [] then None else map_of w p),
      os_lstat = (\<lambda>w p. if p = [] then None else map_of w p),
      os_unlink =
        (\<lambda>w p. if map_of w p \<noteq> None \<and> take 3 p \<noteq> ''ro/''
                then (0, filter (\<lambda>e. fst e \<noteq> p) w) else (- 1, w)),
      os_symlink =
        (\<lambda>w p1 p2. if map_of w p2 = None
                    then (0, (p2, \<lparr>st_dev = 1, st_ino = 99, st_mode = 0xA1FF\<rparr>) # w)
                    else (- 1, w)),
      os_linkat = (\<lambda>w fd1 p1 fd2 p2 flag. table_add w p1 p2),
      os_link = (\<lambda>w p1 p2. table_add w p1 p2),
      os_alloc = (\<lambda>w n. (True, w))\<rparr>"

text \<open>A regular file, a second one, a symbolic link and two directories.\<close>

definition table0 :: table where
  "table0 =
     [(''a.txt'', \<lparr>st_dev = 1, st_ino = 10, st_mode = 0x81A4\<rparr>),
      (''b.txt'', \<lparr>st_dev = 1, st_ino = 11, st_mode = 0x81A4\<rparr>),
      (''sym'', \<lparr>st_dev = 1, st_ino = 12, st_mode = 0xA1FF\<rparr>),
      (''dir'', \<lparr>st_dev = 1, st_ino = 13, st_mode = 0x41ED\<rparr>),
      (''ro'', \<lparr>st_dev = 1, st_ino = 14, st_mode = 0x416D\<rparr>),
      (''ro/b.txt'', \<lparr>st_dev = 1, st_ino = 15, st_mode = 0x81A4\<rparr>)]"

definition proc0 :: "32 word \<Rightarrow> table proc" where
  "proc0 f = \<lparr>ctx = \<lparr>status_code = 0, flags = f\<rparr>, world = table0, trace = []\<rparr>"

subsection \<open>Notions used to state the properties\<close>

text \<open>
  An event of the trace that records a failure: a system call that returned an error
  (a failed \<^verbatim>\<open>stat\<close> of a destination is not one: it means the destination is absent),
  an allocation that failed, or a diagnostic of \<^verbatim>\<open>ln_warn\<close> (which is how the program
  reports a refused removal and a wrong operand count).
\<close>

fun failed_event :: "event \<Rightarrow> bool" where
  "failed_event (Stat p ok) = False"
| "failed_event (Lstat p ok) = (\<not> ok)"
| "failed_event (Unlink p rc) = (rc \<noteq> 0)"
| "failed_event (Symlink p1 p2 rc) = (rc \<noteq> 0)"
| "failed_event (Linkat fd1 p1 fd2 p2 flag rc) = (rc \<noteq> 0)"
| "failed_event (Link p1 p2 rc) = (rc \<noteq> 0)"
| "failed_event (Alloc n ok) = (\<not> ok)"
| "failed_event (Warn errno_msg msg) = True"

text \<open>
  \<open>step_ok s s'\<close>: from \<open>s\<close> to \<open>s'\<close> the flags are unchanged, the trace has grown,
  and the status became failure exactly when a failure was recorded (it is unchanged
  otherwise).
\<close>

definition step_ok :: "'w proc \<Rightarrow> 'w proc \<Rightarrow> bool" where
  "step_ok s s' =
     (flags (ctx s') = flags (ctx s)
      \<and> (\<exists>evs. trace s' = trace s @ evs
            \<and> status_code (ctx s') =
                (if \<exists>e \<in> set evs. failed_event e then EXIT_FAILURE
                 else status_code (ctx s))))"

text \<open>The option characters the \<^verbatim>\<open>switch\<close> of \<^verbatim>\<open>ln_main\<close> recognises.\<close>

definition known_option :: "char \<Rightarrow> bool" where
  "known_option c = (c \<in> set ''fLPs'')"

subsection \<open>The run as spec.md describes it\<close>

text \<open>
  A second description of a run, following the words of spec.md sections 4.2 to 4.5 and
  not the code: it has no status code, no diagnostics and no trace, only the results of
  the calls and the outcome of each step. The outcome of one source operand:
\<close>

datatype step = Linked | Lookup_failed | Composition_failed | Removal_failed | Creation_failed

text \<open>
  Section 4.2, \<open>composeTargetPath\<close>: the directory, a separator unless the directory
  already ends with one, the base name; the length is the two lengths plus 2, and an
  overflow of that sum counts as an allocation failure.
\<close>

definition composeTargetPath :: "'w os \<Rightarrow> path \<Rightarrow> path \<Rightarrow> 'w \<Rightarrow> path option \<times> 'w" where
  "composeTargetPath os targetDir sourceFile w =
     (case os_alloc os w (length sourceFile + 1) of
        (False, w1) \<Rightarrow> (None, w1)
      | (True, w1) \<Rightarrow>
          if 2 ^ 64 \<le> length targetDir + length (basename sourceFile) + 2 then (None, w1)
          else
            (case os_alloc os w1 (length targetDir + length (basename sourceFile) + 2) of
               (False, w2) \<Rightarrow> (None, w2)
             | (True, w2) \<Rightarrow>
                 (Some (targetDir
                        @ (if targetDir \<noteq> [] \<and> last targetDir = CHR ''/'' then [] else ''/'')
                        @ basename sourceFile), w2)))"

text \<open>
  Section 4.3, \<open>resolveDestination\<close>: \<open>True\<close> is Proceed, \<open>False\<close> is Skip.
\<close>

definition resolveDestination ::
  "'w os \<Rightarrow> 32 word \<Rightarrow> stat \<Rightarrow> path \<Rightarrow> 'w \<Rightarrow> bool \<times> 'w" where
  "resolveDestination os fl sourceStatus destinationPath w =
     (case os_stat os w destinationPath of
        None \<Rightarrow> (True, w)
      | Some d \<Rightarrow>
          if fl AND LN_FLAG_REMOVE_DEST = 0 then (False, w)
          else if st_dev d = st_dev sourceStatus \<and> st_ino d = st_ino sourceStatus
            then (False, w)
          else (case os_unlink os w destinationPath of (rc, w1) \<Rightarrow> (rc = 0, w1)))"

text \<open>Section 4.4, \<open>createLink\<close>.\<close>

definition createLink :: "'w os \<Rightarrow> 32 word \<Rightarrow> path \<Rightarrow> path \<Rightarrow> 'w \<Rightarrow> step \<times> 'w" where
  "createLink os fl sourcePath destinationPath w =
     (case os_lstat os w sourcePath of
        None \<Rightarrow> (Lookup_failed, w)
      | Some sb \<Rightarrow>
          (case resolveDestination os fl sb destinationPath w of
             (False, w1) \<Rightarrow> (Removal_failed, w1)
           | (True, w1) \<Rightarrow>
               (case (if fl AND LN_FLAG_SYMBOLIC \<noteq> 0 then
                        os_symlink os w1 sourcePath destinationPath
                      else if S_ISLNK (st_mode sb) then
                        os_linkat os w1 AT_FDCWD sourcePath AT_FDCWD destinationPath
                          (if fl AND LN_FLAG_FOLLOW_SYMBOLIC \<noteq> 0
                           then AT_SYMLINK_FOLLOW else 0)
                      else os_link os w1 sourcePath destinationPath) of
                  (rc, w2) \<Rightarrow> (if rc = 0 then Linked else Creation_failed, w2))))"

text \<open>
  Section 4.5, the batch driver: one source into the directory, all sources in order
  (a failure does not stop the iteration), and the choice between the forms. \<open>None\<close>
  is a failed argument validation: an unrecognised flag or a wrong operand count.
\<close>

definition linkIntoDirectory ::
  "'w os \<Rightarrow> 32 word \<Rightarrow> path \<Rightarrow> path \<Rightarrow> 'w \<Rightarrow> step \<times> 'w" where
  "linkIntoDirectory os fl sourceFile targetDir w =
     (case composeTargetPath os targetDir sourceFile w of
        (None, w1) \<Rightarrow> (Composition_failed, w1)
      | (Some composedPath, w1) \<Rightarrow> createLink os fl sourceFile composedPath w1)"

fun linkAll :: "'w os \<Rightarrow> 32 word \<Rightarrow> path list \<Rightarrow> path \<Rightarrow> 'w \<Rightarrow> step list \<times> 'w" where
  "linkAll os fl [] targetDir w = ([], w)"
| "linkAll os fl (sourceFile # sources) targetDir w =
     (case linkIntoDirectory os fl sourceFile targetDir w of
        (r, w1) \<Rightarrow>
          (case linkAll os fl sources targetDir w1 of (rs, w2) \<Rightarrow> (r # rs, w2)))"

definition batchDriver :: "'w os \<Rightarrow> string list \<Rightarrow> 'w \<Rightarrow> step list option \<times> 'w" where
  "batchDriver os argv w =
     (case getopt ''fLPs'' (tl argv) of
        (opts, operands) \<Rightarrow>
          if \<exists>c \<in> set opts. \<not> known_option c then (None, w)
          else if length operands < 2 then (None, w)
          else if (case os_stat os w (last operands) of
                     None \<Rightarrow> False | Some sb \<Rightarrow> S_ISDIR (st_mode sb)) then
            (case linkAll os (flags (ln_options opts)) (butlast operands) (last operands) w of
               (rs, w1) \<Rightarrow> (Some rs, w1))
          else if 2 < length operands then (None, w)
          else
            (case createLink os (flags (ln_options opts)) (operands ! 0) (operands ! 1) w of
               (r, w1) \<Rightarrow> (Some [r], w1)))"

text \<open>
  \<open>agrees s s' rs w'\<close>: the program went from \<open>s\<close> to \<open>s'\<close> while the description gave
  the outcomes \<open>rs\<close> and the world \<open>w'\<close>: the worlds are the same, the flags are kept,
  and the status became failure exactly when an outcome is not \<open>Linked\<close>.
\<close>

definition agrees :: "'w proc \<Rightarrow> 'w proc \<Rightarrow> step list \<Rightarrow> 'w \<Rightarrow> bool" where
  "agrees s s' rs w' =
     (world s' = w' \<and> flags (ctx s') = flags (ctx s)
      \<and> status_code (ctx s') =
          (if \<exists>r \<in> set rs. r \<noteq> Linked then EXIT_FAILURE else status_code (ctx s)))"

subsection \<open>Safe addition\<close>

lemma size_t_add_no_wrap:
  fixes a b :: size_t
  shows "(a + b < a) = (2 ^ 64 \<le> unat a + unat b)"
proof -
  have ua: "unat a < 2 ^ 64" and ub: "unat b < 2 ^ 64"
    using unsigned_less [of a] unsigned_less [of b] by simp_all
  have sum: "unat (a + b) = (unat a + unat b) mod 2 ^ 64"
    by (simp add: unat_word_ariths)
  show ?thesis
  proof (cases "unat a + unat b < 2 ^ 64")
    case True
    then have "unat (a + b) = unat a + unat b" using sum by simp
    then show ?thesis using True by (simp add: word_less_nat_alt)
  next
    case False
    then have "unat (a + b) = unat a + unat b - 2 ^ 64"
      using sum ua ub by (simp add: mod_if)
    then show ?thesis using False ub by (simp add: word_less_nat_alt)
  qed
qed

text \<open>
  C7. \<^verbatim>\<open>si_add_size_t\<close> reports no wrap exactly when the mathematical sum fits in
  \<^verbatim>\<open>size_t\<close>, and then stores exactly that sum; when the sum does not fit it reports a
  wrap, and the stored (wrapped) result is smaller than each input. \<open>(SIZE_MAX, 1)\<close>
  wraps.
\<close>

theorem si_add_size_t_exact:
  "fst (si_add_size_t a b) = (unat a + unat b \<le> unat SIZE_MAX)
   \<and> (unat a + unat b \<le> unat SIZE_MAX \<longrightarrow>
        unat (snd (si_add_size_t a b)) = unat a + unat b)
   \<and> (unat SIZE_MAX < unat a + unat b \<longrightarrow>
        \<not> fst (si_add_size_t a b) \<and> snd (si_add_size_t a b) < a
        \<and> snd (si_add_size_t a b) < b)
   \<and> si_add_size_t SIZE_MAX 1 = (False, 0)"
proof -
  have max: "unat SIZE_MAX = 2 ^ 64 - 1"
    by (simp add: SIZE_MAX_def)
  have le: "(unat a + unat b \<le> 2 ^ 64 - 1) = (\<not> 2 ^ 64 \<le> unat a + unat b)"
    by auto
  have fst_eq: "fst (si_add_size_t a b) = (\<not> a + b < a)"
    by (simp add: si_add_size_t_def Let_def)
  have snd_eq: "snd (si_add_size_t a b) = a + b"
    by (simp add: si_add_size_t_def Let_def)
  have c1: "fst (si_add_size_t a b) = (unat a + unat b \<le> unat SIZE_MAX)"
    unfolding fst_eq max le size_t_add_no_wrap ..
  have c2: "unat a + unat b \<le> unat SIZE_MAX \<longrightarrow>
        unat (snd (si_add_size_t a b)) = unat a + unat b"
    unfolding snd_eq max by (simp add: unat_word_ariths)
  have c3: "unat SIZE_MAX < unat a + unat b \<longrightarrow>
        \<not> fst (si_add_size_t a b) \<and> snd (si_add_size_t a b) < a
        \<and> snd (si_add_size_t a b) < b"
  proof
    assume big: "unat SIZE_MAX < unat a + unat b"
    then have w: "2 ^ 64 \<le> unat a + unat b" unfolding max by simp
    then have "a + b < a" by (simp add: size_t_add_no_wrap)
    moreover have "b + a < b"
      using w size_t_add_no_wrap [of b a] by (simp only: add.commute [of "unat b"])
    ultimately show "\<not> fst (si_add_size_t a b) \<and> snd (si_add_size_t a b) < a
        \<and> snd (si_add_size_t a b) < b"
      unfolding fst_eq snd_eq by (simp add: add.commute)
  qed
  have c4: "si_add_size_t SIZE_MAX 1 = (False, 0)"
    by (simp add: si_add_size_t_def Let_def SIZE_MAX_def)
  show ?thesis using c1 c2 c3 c4 by blast
qed

theorem si_add_size_t_exact_witness:
  "unat (3 :: size_t) + unat (4 :: size_t) \<le> unat SIZE_MAX
   \<and> si_add_size_t 3 4 = (True, 7)
   \<and> unat SIZE_MAX < unat SIZE_MAX + unat (2 :: size_t)
   \<and> si_add_size_t SIZE_MAX 2 = (False, 1)"
proof -
  have max: "unat SIZE_MAX = 2 ^ 64 - 1"
    by (simp add: SIZE_MAX_def)
  have e1: "si_add_size_t 3 4 = (True, 7)"
    by (simp add: si_add_size_t_def Let_def)
  have e2: "si_add_size_t SIZE_MAX 2 = (False, 1)"
    by (simp add: si_add_size_t_def Let_def SIZE_MAX_def)
  show ?thesis
    using si_add_size_t_exact [of 3 4] si_add_size_t_exact [of SIZE_MAX 2] e1 e2
    by (simp add: max)
qed

subsection \<open>The destination resolver\<close>

lemma ln_remove_dest_flags:
  "ln_remove_dest os source_sb path_dest s = (r, s') \<Longrightarrow> flags (ctx s') = flags (ctx s)"
  by (auto simp: ln_remove_dest_def sys_stat_def sys_unlink_def ln_warn_def Let_def
           split: option.splits if_splits prod.splits)

text \<open>
  C3. \<^verbatim>\<open>ln_remove_dest\<close>, case by case. A destination that \<^verbatim>\<open>stat\<close> does not find:
  proceed, nothing but the \<^verbatim>\<open>stat\<close> call happens. A destination that exists without
  \<^verbatim>\<open>-f\<close>: skip, the status becomes failure, and no \<^verbatim>\<open>unlink\<close> is called (the world
  is unchanged). A destination that exists with \<^verbatim>\<open>-f\<close> and has the device and inode
  of the source: the same. A destination that exists with \<^verbatim>\<open>-f\<close> and another device
  or inode: \<^verbatim>\<open>unlink\<close> is called once; proceed when it returns 0, skip with failure
  otherwise.
\<close>

theorem ln_remove_dest_cases:
  "(os_stat os (world s) path_dest = None \<longrightarrow>
      ln_remove_dest os source_sb path_dest s =
        (True, s\<lparr>trace := trace s @ [Stat path_dest False]\<rparr>))
   \<and> (\<forall>dest_sb. os_stat os (world s) path_dest = Some dest_sb
          \<and> flags (ctx s) AND LN_FLAG_REMOVE_DEST = 0 \<longrightarrow>
      ln_remove_dest os source_sb path_dest s =
        (False, s\<lparr>ctx := (ctx s)\<lparr>status_code := EXIT_FAILURE\<rparr>,
                  trace := trace s @ [Stat path_dest True,
                    Warn False (''destination already exists: '' @ path_dest)]\<rparr>))
   \<and> (\<forall>dest_sb. os_stat os (world s) path_dest = Some dest_sb
          \<and> flags (ctx s) AND LN_FLAG_REMOVE_DEST \<noteq> 0
          \<and> st_dev source_sb = st_dev dest_sb \<and> st_ino source_sb = st_ino dest_sb \<longrightarrow>
      ln_remove_dest os source_sb path_dest s =
        (False, s\<lparr>ctx := (ctx s)\<lparr>status_code := EXIT_FAILURE\<rparr>,
                  trace := trace s @ [Stat path_dest True,
                    Warn False (''source and destination same: '' @ path_dest)]\<rparr>))
   \<and> (\<forall>dest_sb rc w. os_stat os (world s) path_dest = Some dest_sb
          \<and> flags (ctx s) AND LN_FLAG_REMOVE_DEST \<noteq> 0
          \<and> \<not> (st_dev source_sb = st_dev dest_sb \<and> st_ino source_sb = st_ino dest_sb)
          \<and> os_unlink os (world s) path_dest = (rc, w) \<longrightarrow>
      ln_remove_dest os source_sb path_dest s =
        (if rc = 0 then
           (True, s\<lparr>world := w, trace := trace s @ [Stat path_dest True, Unlink path_dest rc]\<rparr>)
         else
           (False, s\<lparr>ctx := (ctx s)\<lparr>status_code := EXIT_FAILURE\<rparr>, world := w,
                     trace := trace s @ [Stat path_dest True, Unlink path_dest rc,
                       Warn True (''failed to unlink destination: '' @ path_dest)]\<rparr>)))"
  by (simp add: ln_remove_dest_def sys_stat_def sys_unlink_def ln_warn_def ln_same_file_def
        Let_def)

theorem ln_remove_dest_cases_witness:
  "ln_remove_dest table_os \<lparr>st_dev = 1, st_ino = 10, st_mode = 0x81A4\<rparr> ''c.txt'' (proc0 0) =
     (True, (proc0 0)\<lparr>trace := [Stat ''c.txt'' False]\<rparr>)
   \<and> ln_remove_dest table_os \<lparr>st_dev = 1, st_ino = 10, st_mode = 0x81A4\<rparr> ''b.txt'' (proc0 0) =
     (False, (proc0 0)\<lparr>ctx := \<lparr>status_code = EXIT_FAILURE, flags = 0\<rparr>,
        trace := [Stat ''b.txt'' True, Warn False ''destination already exists: b.txt'']\<rparr>)
   \<and> ln_remove_dest table_os \<lparr>st_dev = 1, st_ino = 10, st_mode = 0x81A4\<rparr> ''a.txt'' (proc0 1) =
     (False, (proc0 1)\<lparr>ctx := \<lparr>status_code = EXIT_FAILURE, flags = 1\<rparr>,
        trace := [Stat ''a.txt'' True, Warn False ''source and destination same: a.txt'']\<rparr>)
   \<and> ln_remove_dest table_os \<lparr>st_dev = 1, st_ino = 10, st_mode = 0x81A4\<rparr> ''b.txt'' (proc0 1) =
     (True, (proc0 1)\<lparr>world := filter (\<lambda>e. fst e \<noteq> ''b.txt'') table0,
        trace := [Stat ''b.txt'' True, Unlink ''b.txt'' 0]\<rparr>)
   \<and> ln_remove_dest table_os \<lparr>st_dev = 1, st_ino = 10, st_mode = 0x81A4\<rparr> ''ro/b.txt'' (proc0 1) =
     (False, (proc0 1)\<lparr>ctx := \<lparr>status_code = EXIT_FAILURE, flags = 1\<rparr>,
        trace := [Stat ''ro/b.txt'' True, Unlink ''ro/b.txt'' (- 1),
                  Warn True ''failed to unlink destination: ro/b.txt'']\<rparr>)"
proof -
  let ?sb = "\<lparr>st_dev = 1, st_ino = 10, st_mode = 0x81A4\<rparr> :: stat"
  have f0: "flags (ctx (proc0 0)) AND LN_FLAG_REMOVE_DEST = 0"
    and f1: "flags (ctx (proc0 1)) AND LN_FLAG_REMOVE_DEST \<noteq> 0"
    by (simp_all add: proc0_def LN_FLAG_REMOVE_DEST_def)
  have w0: "world (proc0 0) = table0" and w1: "world (proc0 1) = table0"
    by (simp_all add: proc0_def)
  have st_c: "os_stat table_os table0 ''c.txt'' = None"
    and st_b: "os_stat table_os table0 ''b.txt''
                 = Some \<lparr>st_dev = 1, st_ino = 11, st_mode = 0x81A4\<rparr>"
    and st_a: "os_stat table_os table0 ''a.txt'' = Some ?sb"
    and st_r: "os_stat table_os table0 ''ro/b.txt''
                 = Some \<lparr>st_dev = 1, st_ino = 15, st_mode = 0x81A4\<rparr>"
    by (simp_all add: table_os_def table0_def)
  have un_b: "os_unlink table_os table0 ''b.txt''
                = (0, filter (\<lambda>e. fst e \<noteq> ''b.txt'') table0)"
    and un_r: "os_unlink table_os table0 ''ro/b.txt'' = (- 1, table0)"
    by (simp_all add: table_os_def table0_def)
  have c1: "ln_remove_dest table_os ?sb ''c.txt'' (proc0 0) =
     (True, (proc0 0)\<lparr>trace := [Stat ''c.txt'' False]\<rparr>)"
    using ln_remove_dest_cases [of table_os "proc0 0" "''c.txt''" ?sb] st_c
    by (simp add: w0; simp add: proc0_def)
  have c2: "ln_remove_dest table_os ?sb ''b.txt'' (proc0 0) =
     (False, (proc0 0)\<lparr>ctx := \<lparr>status_code = EXIT_FAILURE, flags = 0\<rparr>,
        trace := [Stat ''b.txt'' True, Warn False ''destination already exists: b.txt'']\<rparr>)"
    using ln_remove_dest_cases [of table_os "proc0 0" "''b.txt''" ?sb] st_b f0
    by (simp add: w0; simp add: proc0_def)
  have c3: "ln_remove_dest table_os ?sb ''a.txt'' (proc0 1) =
     (False, (proc0 1)\<lparr>ctx := \<lparr>status_code = EXIT_FAILURE, flags = 1\<rparr>,
        trace := [Stat ''a.txt'' True, Warn False ''source and destination same: a.txt'']\<rparr>)"
    using ln_remove_dest_cases [of table_os "proc0 1" "''a.txt''" ?sb] st_a f1
    by (simp add: w1; simp add: proc0_def)
  have c4: "ln_remove_dest table_os ?sb ''b.txt'' (proc0 1) =
     (True, (proc0 1)\<lparr>world := filter (\<lambda>e. fst e \<noteq> ''b.txt'') table0,
        trace := [Stat ''b.txt'' True, Unlink ''b.txt'' 0]\<rparr>)"
    using ln_remove_dest_cases [of table_os "proc0 1" "''b.txt''" ?sb] st_b f1 un_b
    by (simp add: w1; simp add: proc0_def)
  have c5: "ln_remove_dest table_os ?sb ''ro/b.txt'' (proc0 1) =
     (False, (proc0 1)\<lparr>ctx := \<lparr>status_code = EXIT_FAILURE, flags = 1\<rparr>,
        trace := [Stat ''ro/b.txt'' True, Unlink ''ro/b.txt'' (- 1),
                  Warn True ''failed to unlink destination: ro/b.txt'']\<rparr>)"
    using ln_remove_dest_cases [of table_os "proc0 1" "''ro/b.txt''" ?sb] st_r f1 un_r
    by (simp add: w1; simp add: proc0_def)
  show ?thesis using c1 c2 c3 c4 c5 by (intro conjI)
qed

subsection \<open>The link creator\<close>

text \<open>
  C6. When \<^verbatim>\<open>lstat\<close> of the source fails, \<^verbatim>\<open>ln_create_link\<close> records the failure with
  the diagnostic \<^verbatim>\<open>lstat(path_source)\<close> and does nothing else, whatever the flags are:
  the trace gains the failed \<^verbatim>\<open>lstat\<close> and the warning only (no \<^verbatim>\<open>stat\<close> of the
  destination, no \<^verbatim>\<open>unlink\<close>, no \<^verbatim>\<open>link\<close>, \<^verbatim>\<open>linkat\<close> or \<^verbatim>\<open>symlink\<close>), and the world
  is unchanged.
\<close>

theorem ln_create_link_lstat_fails:
  assumes "os_lstat os (world s) path_source = None"
  shows "ln_create_link os path_source path_dest s =
           s\<lparr>ctx := (ctx s)\<lparr>status_code := EXIT_FAILURE\<rparr>,
             trace := trace s @ [Lstat path_source False,
                                 Warn True (''lstat('' @ path_source @ '')'')]\<rparr>
         \<and> world (ln_create_link os path_source path_dest s) = world s
         \<and> status_code (ctx (ln_create_link os path_source path_dest s)) = EXIT_FAILURE"
  using assms by (simp add: ln_create_link_def sys_lstat_def ln_warn_def Let_def)

theorem ln_create_link_lstat_fails_witness:
  "os_lstat table_os (world (proc0 LN_FLAG_SYMBOLIC)) ''missing'' = None
   \<and> trace (ln_create_link table_os ''missing'' ''b.txt'' (proc0 LN_FLAG_SYMBOLIC)) =
       [Lstat ''missing'' False, Warn True ''lstat(missing)'']
   \<and> world (ln_create_link table_os ''missing'' ''b.txt'' (proc0 LN_FLAG_SYMBOLIC)) = table0"
proof -
  have h: "os_lstat table_os (world (proc0 LN_FLAG_SYMBOLIC)) ''missing'' = None"
    by (simp add: table_os_def proc0_def table0_def)
  show ?thesis
    using h ln_create_link_lstat_fails [OF h, of "''b.txt''"]
    by (simp add: proc0_def)
qed

lemma ln_create_link_after_remove:
  assumes "os_lstat os (world s) path_source = Some source_sb"
    and "ln_remove_dest os source_sb path_dest
           (s\<lparr>trace := trace s @ [Lstat path_source True]\<rparr>) = (True, s2)"
  shows "ln_create_link os path_source path_dest s =
      (case (if flags (ctx s) AND LN_FLAG_SYMBOLIC \<noteq> 0 then
               sys_symlink os path_source path_dest s2
             else if S_ISLNK (st_mode source_sb) then
               sys_linkat os AT_FDCWD path_source AT_FDCWD path_dest
                 (if flags (ctx s) AND LN_FLAG_FOLLOW_SYMBOLIC \<noteq> 0
                  then AT_SYMLINK_FOLLOW else 0) s2
             else sys_link os path_source path_dest s2) of
         (rc, s3) \<Rightarrow>
           if rc \<noteq> 0 then
             ln_warn True (''failed to create link: '' @ path_source @ '' - '' @ path_dest) s3
           else s3)"
proof -
  have fl: "flags (ctx s2) = flags (ctx s)"
    using ln_remove_dest_flags [OF assms(2)] by simp
  have l: "sys_lstat os path_source s =
             (Some source_sb, s\<lparr>trace := trace s @ [Lstat path_source True]\<rparr>)"
    using assms(1) by (simp add: sys_lstat_def Let_def)
  show ?thesis
    unfolding ln_create_link_def l using assms(2) fl
    by (simp add: Let_def cong: if_cong)
qed

text \<open>
  C4. When \<^verbatim>\<open>lstat\<close> of the source succeeds and \<^verbatim>\<open>ln_remove_dest\<close> says proceed,
  \<^verbatim>\<open>ln_create_link\<close> makes exactly one call: \<^verbatim>\<open>symlink(path_source, path_dest)\<close> when
  \<^verbatim>\<open>-s\<close> is set; otherwise, for a source that is a symbolic link,
  \<^verbatim>\<open>linkat(AT_FDCWD, path_source, AT_FDCWD, path_dest, flag)\<close> with
  \<^verbatim>\<open>AT_SYMLINK_FOLLOW\<close> exactly when \<^verbatim>\<open>-L\<close> is in force and 0 otherwise; otherwise
  \<^verbatim>\<open>link(path_source, path_dest)\<close>. A warning follows when the call fails.
\<close>

theorem ln_create_link_selects:
  assumes "os_lstat os (world s) path_source = Some source_sb"
    and "ln_remove_dest os source_sb path_dest
           (s\<lparr>trace := trace s @ [Lstat path_source True]\<rparr>) = (True, s2)"
  shows "(flags (ctx s) AND LN_FLAG_SYMBOLIC \<noteq> 0 \<longrightarrow>
            (\<exists>rc w. os_symlink os (world s2) path_source path_dest = (rc, w)
               \<and> world (ln_create_link os path_source path_dest s) = w
               \<and> trace (ln_create_link os path_source path_dest s) =
                   trace s2 @ Symlink path_source path_dest rc
                     # (if rc \<noteq> 0 then [Warn True (''failed to create link: ''
                           @ path_source @ '' - '' @ path_dest)] else [])))
       \<and> (flags (ctx s) AND LN_FLAG_SYMBOLIC = 0 \<and> S_ISLNK (st_mode source_sb) \<longrightarrow>
            (\<exists>rc w flag. os_linkat os (world s2) AT_FDCWD path_source AT_FDCWD path_dest flag
                            = (rc, w)
               \<and> flag = (if flags (ctx s) AND LN_FLAG_FOLLOW_SYMBOLIC \<noteq> 0
                          then AT_SYMLINK_FOLLOW else 0)
               \<and> world (ln_create_link os path_source path_dest s) = w
               \<and> trace (ln_create_link os path_source path_dest s) =
                   trace s2 @ Linkat AT_FDCWD path_source AT_FDCWD path_dest flag rc
                     # (if rc \<noteq> 0 then [Warn True (''failed to create link: ''
                           @ path_source @ '' - '' @ path_dest)] else [])))
       \<and> (flags (ctx s) AND LN_FLAG_SYMBOLIC = 0 \<and> \<not> S_ISLNK (st_mode source_sb) \<longrightarrow>
            (\<exists>rc w. os_link os (world s2) path_source path_dest = (rc, w)
               \<and> world (ln_create_link os path_source path_dest s) = w
               \<and> trace (ln_create_link os path_source path_dest s) =
                   trace s2 @ Link path_source path_dest rc
                     # (if rc \<noteq> 0 then [Warn True (''failed to create link: ''
                           @ path_source @ '' - '' @ path_dest)] else [])))"
proof (intro conjI impI)
  assume sym: "flags (ctx s) AND LN_FLAG_SYMBOLIC \<noteq> 0"
  obtain rc w where r: "os_symlink os (world s2) path_source path_dest = (rc, w)"
    by (cases "os_symlink os (world s2) path_source path_dest")
  have "ln_create_link os path_source path_dest s =
      (if rc \<noteq> 0 then
         ln_warn True (''failed to create link: '' @ path_source @ '' - '' @ path_dest)
           (s2\<lparr>world := w, trace := trace s2 @ [Symlink path_source path_dest rc]\<rparr>)
       else s2\<lparr>world := w, trace := trace s2 @ [Symlink path_source path_dest rc]\<rparr>)"
    unfolding ln_create_link_after_remove [OF assms] using sym r
    by (simp add: sys_symlink_def)
  then show "\<exists>rc w. os_symlink os (world s2) path_source path_dest = (rc, w)
               \<and> world (ln_create_link os path_source path_dest s) = w
               \<and> trace (ln_create_link os path_source path_dest s) =
                   trace s2 @ Symlink path_source path_dest rc
                     # (if rc \<noteq> 0 then [Warn True (''failed to create link: ''
                           @ path_source @ '' - '' @ path_dest)] else [])"
    using r by (simp add: ln_warn_def)
next
  assume hyp: "flags (ctx s) AND LN_FLAG_SYMBOLIC = 0 \<and> S_ISLNK (st_mode source_sb)"
  define flag where
    "flag = (if flags (ctx s) AND LN_FLAG_FOLLOW_SYMBOLIC \<noteq> 0 then AT_SYMLINK_FOLLOW else 0)"
  obtain rc w where
    r: "os_linkat os (world s2) AT_FDCWD path_source AT_FDCWD path_dest flag = (rc, w)"
    by (cases "os_linkat os (world s2) AT_FDCWD path_source AT_FDCWD path_dest flag")
  have "ln_create_link os path_source path_dest s =
      (if rc \<noteq> 0 then
         ln_warn True (''failed to create link: '' @ path_source @ '' - '' @ path_dest)
           (s2\<lparr>world := w,
               trace := trace s2 @ [Linkat AT_FDCWD path_source AT_FDCWD path_dest flag rc]\<rparr>)
       else s2\<lparr>world := w,
               trace := trace s2 @ [Linkat AT_FDCWD path_source AT_FDCWD path_dest flag rc]\<rparr>)"
    unfolding ln_create_link_after_remove [OF assms] flag_def [symmetric] using hyp r
    by (simp add: sys_linkat_def)
  then have "os_linkat os (world s2) AT_FDCWD path_source AT_FDCWD path_dest flag = (rc, w)
               \<and> flag = (if flags (ctx s) AND LN_FLAG_FOLLOW_SYMBOLIC \<noteq> 0
                          then AT_SYMLINK_FOLLOW else 0)
               \<and> world (ln_create_link os path_source path_dest s) = w
               \<and> trace (ln_create_link os path_source path_dest s) =
                   trace s2 @ Linkat AT_FDCWD path_source AT_FDCWD path_dest flag rc
                     # (if rc \<noteq> 0 then [Warn True (''failed to create link: ''
                           @ path_source @ '' - '' @ path_dest)] else [])"
    using r flag_def by (simp add: ln_warn_def)
  then show "\<exists>rc w flag. os_linkat os (world s2) AT_FDCWD path_source AT_FDCWD path_dest flag
                            = (rc, w)
               \<and> flag = (if flags (ctx s) AND LN_FLAG_FOLLOW_SYMBOLIC \<noteq> 0
                          then AT_SYMLINK_FOLLOW else 0)
               \<and> world (ln_create_link os path_source path_dest s) = w
               \<and> trace (ln_create_link os path_source path_dest s) =
                   trace s2 @ Linkat AT_FDCWD path_source AT_FDCWD path_dest flag rc
                     # (if rc \<noteq> 0 then [Warn True (''failed to create link: ''
                           @ path_source @ '' - '' @ path_dest)] else [])"
    by blast
next
  assume hyp: "flags (ctx s) AND LN_FLAG_SYMBOLIC = 0 \<and> \<not> S_ISLNK (st_mode source_sb)"
  obtain rc w where r: "os_link os (world s2) path_source path_dest = (rc, w)"
    by (cases "os_link os (world s2) path_source path_dest")
  have "ln_create_link os path_source path_dest s =
      (if rc \<noteq> 0 then
         ln_warn True (''failed to create link: '' @ path_source @ '' - '' @ path_dest)
           (s2\<lparr>world := w, trace := trace s2 @ [Link path_source path_dest rc]\<rparr>)
       else s2\<lparr>world := w, trace := trace s2 @ [Link path_source path_dest rc]\<rparr>)"
    unfolding ln_create_link_after_remove [OF assms] using hyp r
    by (simp add: sys_link_def)
  then show "\<exists>rc w. os_link os (world s2) path_source path_dest = (rc, w)
               \<and> world (ln_create_link os path_source path_dest s) = w
               \<and> trace (ln_create_link os path_source path_dest s) =
                   trace s2 @ Link path_source path_dest rc
                     # (if rc \<noteq> 0 then [Warn True (''failed to create link: ''
                           @ path_source @ '' - '' @ path_dest)] else [])"
    using r by (simp add: ln_warn_def)
qed

theorem ln_create_link_selects_witness:
  "trace (ln_create_link table_os ''a.txt'' ''c.txt'' (proc0 LN_FLAG_SYMBOLIC)) =
     [Lstat ''a.txt'' True, Stat ''c.txt'' False, Symlink ''a.txt'' ''c.txt'' 0]
   \<and> trace (ln_create_link table_os ''sym'' ''c.txt'' (proc0 LN_FLAG_FOLLOW_SYMBOLIC)) =
     [Lstat ''sym'' True, Stat ''c.txt'' False,
      Linkat AT_FDCWD ''sym'' AT_FDCWD ''c.txt'' AT_SYMLINK_FOLLOW 0]
   \<and> trace (ln_create_link table_os ''sym'' ''c.txt'' (proc0 0)) =
     [Lstat ''sym'' True, Stat ''c.txt'' False,
      Linkat AT_FDCWD ''sym'' AT_FDCWD ''c.txt'' 0 0]
   \<and> trace (ln_create_link table_os ''a.txt'' ''c.txt'' (proc0 0)) =
     [Lstat ''a.txt'' True, Stat ''c.txt'' False, Link ''a.txt'' ''c.txt'' 0]"
proof -
  let ?a = "\<lparr>st_dev = 1, st_ino = 10, st_mode = 0x81A4\<rparr> :: stat"
  let ?l = "\<lparr>st_dev = 1, st_ino = 12, st_mode = 0xA1FF\<rparr> :: stat"
  have w: "\<And>f. world (proc0 f) = table0" and fl: "\<And>f. flags (ctx (proc0 f)) = f"
    and tr: "\<And>f. trace (proc0 f) = []"
    by (simp_all add: proc0_def)
  have ls_a: "os_lstat table_os table0 ''a.txt'' = Some ?a"
    and ls_l: "os_lstat table_os table0 ''sym'' = Some ?l"
    and st_c: "os_stat table_os table0 ''c.txt'' = None"
    by (simp_all add: table_os_def table0_def)
  have isl: "S_ISLNK (st_mode ?l)" and nisl: "\<not> S_ISLNK (st_mode ?a)"
    by (simp_all add: S_ISLNK_def S_IFMT_def S_IFLNK_def)
  have rm: "\<And>f sb p. ln_remove_dest table_os sb ''c.txt''
               ((proc0 f)\<lparr>trace := trace (proc0 f) @ [Lstat p True]\<rparr>) =
             (True, (proc0 f)\<lparr>trace := [Lstat p True, Stat ''c.txt'' False]\<rparr>)"
    using st_c by (simp add: ln_remove_dest_def sys_stat_def Let_def proc0_def)
  have sy: "os_symlink table_os table0 ''a.txt'' ''c.txt'' =
              (0, (''c.txt'', \<lparr>st_dev = 1, st_ino = 99, st_mode = 0xA1FF\<rparr>) # table0)"
    and la: "\<And>fl. os_linkat table_os table0 AT_FDCWD ''sym'' AT_FDCWD ''c.txt'' fl =
              (0, (''c.txt'', ?l) # table0)"
    and li: "os_link table_os table0 ''a.txt'' ''c.txt'' = (0, (''c.txt'', ?a) # table0)"
    by (simp_all add: table_os_def table0_def table_add_def)
  have c1: "trace (ln_create_link table_os ''a.txt'' ''c.txt'' (proc0 LN_FLAG_SYMBOLIC)) =
     [Lstat ''a.txt'' True, Stat ''c.txt'' False, Symlink ''a.txt'' ''c.txt'' 0]"
    using ln_create_link_selects [of table_os "proc0 LN_FLAG_SYMBOLIC" "''a.txt''" ?a "''c.txt''",
            OF _ rm] ls_a sy
    by (simp add: w fl; simp add: LN_FLAG_SYMBOLIC_def proc0_def)
  have c2: "trace (ln_create_link table_os ''sym'' ''c.txt'' (proc0 LN_FLAG_FOLLOW_SYMBOLIC)) =
     [Lstat ''sym'' True, Stat ''c.txt'' False,
      Linkat AT_FDCWD ''sym'' AT_FDCWD ''c.txt'' AT_SYMLINK_FOLLOW 0]"
    using ln_create_link_selects [of table_os "proc0 LN_FLAG_FOLLOW_SYMBOLIC" "''sym''" ?l
            "''c.txt''", OF _ rm] ls_l la isl
    by (simp add: w fl; simp add: LN_FLAG_SYMBOLIC_def LN_FLAG_FOLLOW_SYMBOLIC_def proc0_def)
  have c3: "trace (ln_create_link table_os ''sym'' ''c.txt'' (proc0 0)) =
     [Lstat ''sym'' True, Stat ''c.txt'' False,
      Linkat AT_FDCWD ''sym'' AT_FDCWD ''c.txt'' 0 0]"
    using ln_create_link_selects [of table_os "proc0 0" "''sym''" ?l "''c.txt''", OF _ rm]
      ls_l la isl
    by (simp add: w fl; simp add: proc0_def)
  have c4: "trace (ln_create_link table_os ''a.txt'' ''c.txt'' (proc0 0)) =
     [Lstat ''a.txt'' True, Stat ''c.txt'' False, Link ''a.txt'' ''c.txt'' 0]"
    using ln_create_link_selects [of table_os "proc0 0" "''a.txt''" ?a "''c.txt''", OF _ rm]
      ls_a li nisl
    by (simp add: w fl; simp add: proc0_def)
  show ?thesis using c1 c2 c3 c4 by (intro conjI)
qed

subsection \<open>The path composer\<close>

lemma unat_strlen: "length s < 2 ^ 64 \<Longrightarrow> unat (strlen s) = length s"
  by (simp add: strlen_def unat_of_nat)

lemma si_add_size_t_fits:
  "unat a + unat b < 2 ^ 64 \<Longrightarrow> si_add_size_t a b = (True, a + b)"
  by (simp add: si_add_size_t_def Let_def size_t_add_no_wrap)

lemma c_index_empty: "c_index [] (strlen [] - 1) = Inl (OutOfBounds [] SIZE_MAX)"
proof -
  have e: "strlen [] - 1 = SIZE_MAX" by (simp add: strlen_def SIZE_MAX_def)
  have u: "unat SIZE_MAX = 18446744073709551615" by (simp add: SIZE_MAX_def)
  show ?thesis unfolding e by (simp add: c_index_def u)
qed

lemma c_index_last:
  assumes "s \<noteq> []" and "length s < 2 ^ 64"
  shows "c_index s (strlen s - 1) = Inr (last s)"
proof -
  have pos: "0 < length s" using assms(1) by simp
  have nz: "strlen s \<noteq> 0"
    using unat_strlen [OF assms(2)] pos by auto
  have "unat (strlen s - 1) = length s - 1"
    using unat_minus_one [OF nz] unat_strlen [OF assms(2)] by simp
  then show ?thesis
    using pos assms(1) by (simp add: c_index_def last_conv_nth)
qed


lemma unat_add_fits:
  fixes a b :: size_t
  shows "unat a + unat b < 2 ^ 64 \<Longrightarrow> unat (a + b) = unat a + unat b"
  by (simp add: unat_word_ariths)

text \<open>
  C9. For a non-empty target directory, when both allocations succeed and the length
  fits in \<^verbatim>\<open>size_t\<close>, \<^verbatim>\<open>ln_path_target_concat\<close> returns the directory, a slash unless
  the directory already ends in one, and the base name of the source. So
  \<^verbatim>\<open>("dir", "a/b/file.txt")\<close> and \<^verbatim>\<open>("dir/", "file.txt")\<close> both give
  \<^verbatim>\<open>dir/file.txt\<close>.
\<close>

theorem ln_path_target_concat_joins:
  assumes "target_dir \<noteq> []"
    and "length target_dir + length (basename source_file) + 2 < 2 ^ 64"
    and "os_alloc os (world s) (length source_file + 1) = (True, w1)"
    and "os_alloc os w1 (length target_dir + length (basename source_file) + 2) = (True, w2)"
  shows "ln_path_target_concat os target_dir source_file s =
           Inr (Some (target_dir
                      @ (if last target_dir = CHR ''/'' then [] else ''/'')
                      @ basename source_file),
                s\<lparr>world := w2,
                  trace := trace s @
                    [Alloc (length source_file + 1) True,
                     Alloc (length target_dir + length (basename source_file) + 2) True]\<rparr>)"
proof -
  let ?n = "length target_dir" and ?m = "length (basename source_file)"
  have n: "?n < 2 ^ 64" and m: "?m < 2 ^ 64" using assms(2) by simp_all
  have un: "unat (strlen target_dir) = ?n" and um: "unat (strlen (basename source_file)) = ?m"
    using n m by (simp_all add: unat_strlen)
  have a1: "si_add_size_t (strlen target_dir) (strlen (basename source_file)) =
              (True, strlen target_dir + strlen (basename source_file))"
    using assms(2) by (intro si_add_size_t_fits) (simp add: un um)
  have u1: "unat (strlen target_dir + strlen (basename source_file)) = ?n + ?m"
    using assms(2) unat_add_fits [of "strlen target_dir" "strlen (basename source_file)"]
    by (simp add: un um)
  have a2: "si_add_size_t (strlen target_dir + strlen (basename source_file)) 2 =
              (True, strlen target_dir + strlen (basename source_file) + 2)"
    using assms(2) by (intro si_add_size_t_fits) (simp add: u1)
  have u2: "unat (strlen target_dir + strlen (basename source_file) + 2) = ?n + ?m + 2"
    using assms(2) unat_add_fits [of "strlen target_dir + strlen (basename source_file)" 2]
    by (simp add: u1)
  have ix: "c_index target_dir (strlen target_dir - 1) = Inr (last target_dir)"
    using assms(1) n by (rule c_index_last)
  show ?thesis
    unfolding ln_path_target_concat_def
    using assms(3,4) by (simp add: Let_def a1 a2 u2 sys_alloc_def ix)
qed

theorem ln_path_target_concat_joins_witness:
  "ln_path_target_concat table_os ''dir'' ''a/b/file.txt'' (proc0 0) =
     Inr (Some ''dir/file.txt'',
          (proc0 0)\<lparr>trace := [Alloc 13 True, Alloc 13 True]\<rparr>)
   \<and> ln_path_target_concat table_os ''dir/'' ''file.txt'' (proc0 0) =
     Inr (Some ''dir/file.txt'',
          (proc0 0)\<lparr>trace := [Alloc 9 True, Alloc 14 True]\<rparr>)"
proof -
  have b1: "basename ''a/b/file.txt'' = ''file.txt''"
    and b2: "basename ''file.txt'' = ''file.txt''"
    by (simp_all add: basename_def strip_trailing_slashes_def)
  have al: "\<And>w n. os_alloc table_os w n = (True, w)"
    by (simp add: table_os_def)
  have c1: "ln_path_target_concat table_os ''dir'' ''a/b/file.txt'' (proc0 0) =
     Inr (Some ''dir/file.txt'', (proc0 0)\<lparr>trace := [Alloc 13 True, Alloc 13 True]\<rparr>)"
    using ln_path_target_concat_joins [of "''dir''" "''a/b/file.txt''" table_os "proc0 0",
            OF _ _ al al]
    by (simp add: b1 proc0_def)
  have c2: "ln_path_target_concat table_os ''dir/'' ''file.txt'' (proc0 0) =
     Inr (Some ''dir/file.txt'', (proc0 0)\<lparr>trace := [Alloc 9 True, Alloc 14 True]\<rparr>)"
    using ln_path_target_concat_joins [of "''dir/''" "''file.txt''" table_os "proc0 0",
            OF _ _ al al]
    by (simp add: b2 proc0_def)
  show ?thesis using c1 c2 by (intro conjI)
qed

subsection \<open>Status and trace along a run\<close>




lemma step_ok_events_warn:
  assumes "flags (ctx s1) = flags (ctx s)" and "trace s1 = trace s @ evs"
  shows "step_ok s (ln_warn errno_msg msg s1)"
proof -
  have "trace (ln_warn errno_msg msg s1) = trace s @ (evs @ [Warn errno_msg msg])"
    using assms(2) by (simp add: ln_warn_def)
  moreover have "status_code (ctx (ln_warn errno_msg msg s1)) =
      (if \<exists>e \<in> set (evs @ [Warn errno_msg msg]). failed_event e then EXIT_FAILURE
       else status_code (ctx s))"
    by (simp add: ln_warn_def)
  moreover have "flags (ctx (ln_warn errno_msg msg s1)) = flags (ctx s)"
    using assms(1) by (simp add: ln_warn_def)
  ultimately show ?thesis unfolding step_ok_def by blast
qed

lemma step_ok_warn: "step_ok s (ln_warn errno_msg msg s)"
  by (rule step_ok_events_warn [where evs = "[]"]) simp_all




lemma ln_path_target_concat_no_fault:
  assumes "target_dir \<noteq> []"
  shows "\<exists>r. ln_path_target_concat os target_dir source_file s = Inr r"
proof -
  have "\<exists>c. c_index target_dir (strlen target_dir - 1) = Inr c"
  proof (cases "length target_dir < 2 ^ 64")
    case True
    then show ?thesis using assms c_index_last by blast
  next
    case False
    have "unat (strlen target_dir - 1) < 2 ^ 64"
      using unsigned_less [of "strlen target_dir - 1"] by simp
    then have "unat (strlen target_dir - 1) < length target_dir" using False by simp
    then show ?thesis by (simp add: c_index_def)
  qed
  then obtain c where c: "c_index target_dir (strlen target_dir - 1) = Inr c" by blast
  show ?thesis
    unfolding ln_path_target_concat_def
    by (simp add: Let_def c split: prod.splits bool.splits)
qed


lemma ln_target_dir_no_fault:
  assumes "target_dir \<noteq> []"
  shows "\<exists>s'. ln_target_dir os source_file target_dir s = Inr s'"
proof -
  obtain x where "ln_path_target_concat os target_dir source_file s = Inr x"
    using ln_path_target_concat_no_fault [OF assms] by blast
  then show ?thesis
    by (cases x) (simp add: ln_target_dir_def split: option.splits)
qed


lemma ln_target_dirs_no_fault:
  assumes "target_dir \<noteq> []"
  shows "\<exists>s'. ln_target_dirs os sources target_dir s = Inr s'"
proof (induction sources arbitrary: s)
  case Nil
  then show ?case by simp
next
  case (Cons source_file rest)
  obtain s1 where "ln_target_dir os source_file target_dir s = Inr s1"
    using ln_target_dir_no_fault [OF assms] by blast
  then show ?case using Cons.IH [of s1] by simp
qed


subsection \<open>Option parsing\<close>

lemma recognised_option:
  "(c \<in> set ''fLPs'') = (c = CHR ''f'' \<or> c = CHR ''L'' \<or> c = CHR ''P'' \<or> c = CHR ''s'')"
  by auto

lemma ln_option_status:
  "status_code (ln_option c x) = (if c \<in> set ''fLPs'' then status_code x else EXIT_FAILURE)"
  unfolding recognised_option by (simp add: ln_option_def)

lemma ln_option_flags_unrecognised:
  "c \<notin> set ''fLPs'' \<Longrightarrow> flags (ln_option c x) = flags x"
  unfolding recognised_option by (simp add: ln_option_def)

lemma ln_option_flags_cong:
  "flags x = flags y \<Longrightarrow> flags (ln_option c x) = flags (ln_option c y)"
  by (simp add: ln_option_def)

lemma ln_option_status_known:
  "status_code (ln_option c x) = (if known_option c then status_code x else EXIT_FAILURE)"
  unfolding known_option_def by (rule ln_option_status)

lemma fold_ln_option_status:
  "status_code (fold ln_option opts x) =
     (if \<exists>c \<in> set opts. \<not> known_option c then EXIT_FAILURE else status_code x)"
proof (induction opts arbitrary: x)
  case Nil
  then show ?case by simp
next
  case (Cons c opts)
  show ?case
    using Cons.IH [of "ln_option c x"] by (simp add: ln_option_status_known)
qed


lemma getopt_char_range:
  "known_option (getopt_char ''fLPs'' c) \<or> getopt_char ''fLPs'' c = CHR ''?''"
  by (auto simp: getopt_char_def known_option_def)

lemma question_mark_unknown: "\<not> known_option (CHR ''?'')"
  by (simp add: known_option_def)

lemma getopt_range:
  "getopt optstring args = (opts, operands) \<Longrightarrow> optstring = ''fLPs'' \<Longrightarrow>
     \<forall>c \<in> set opts. known_option c \<or> c = CHR ''?''"
proof (induction optstring args arbitrary: opts operands rule: getopt.induct)
  case (1 optstring)
  then show ?case by simp
next
  case (2 optstring a args)
  obtain o1 r1 where g: "getopt optstring args = (o1, r1)"
    by (cases "getopt optstring args")
  have "opts = [] \<or> (\<exists>ds. opts = map (getopt_char optstring) ds @ o1
                            \<and> (\<forall>c \<in> set o1. known_option c \<or> c = CHR ''?''))"
  proof (cases "a = ''--''")
    case True
    then show ?thesis using "2.prems"(1) by simp
  next
    case False
    show ?thesis
    proof (cases a)
      case Nil
      then show ?thesis using "2.prems"(1) False by simp
    next
      case (Cons c t)
      show ?thesis
      proof (cases t)
        case Nil
        then show ?thesis using "2.prems"(1) False Cons by simp
      next
        case (Cons d cs)
        show ?thesis
        proof (cases "c = CHR ''-''")
          case True
          have ih: "\<forall>c \<in> set o1. known_option c \<or> c = CHR ''?''"
            using "2.IH" [OF False \<open>a = c # t\<close> Cons True g "2.prems"(2)] .
          have "opts = map (getopt_char optstring) (d # cs) @ o1"
            using "2.prems"(1) False \<open>a = c # t\<close> Cons True g by auto
          then show ?thesis using ih by blast
        next
          case False
          then show ?thesis using "2.prems"(1) \<open>a \<noteq> ''--''\<close> \<open>a = c # t\<close> Cons by simp
        qed
      qed
    qed
  qed
  then show ?case
  proof
    assume "opts = []"
    then show ?thesis by simp
  next
    assume "\<exists>ds. opts = map (getopt_char optstring) ds @ o1
                 \<and> (\<forall>c \<in> set o1. known_option c \<or> c = CHR ''?'')"
    then obtain ds where o: "opts = map (getopt_char optstring) ds @ o1"
      and r: "\<forall>c \<in> set o1. known_option c \<or> c = CHR ''?''" by blast
    have "\<forall>c \<in> set (map (getopt_char optstring) ds). known_option c \<or> c = CHR ''?''"
      unfolding "2.prems"(2) using getopt_char_range by simp
    then show ?thesis unfolding o using r by auto
  qed
qed

lemma fold_ln_option_flags:
  "flags x = flags y \<Longrightarrow> flags (fold ln_option opts x) = flags (fold ln_option opts y)"
proof (induction opts arbitrary: x y)
  case Nil
  then show ?case by simp
next
  case (Cons c opts)
  have "flags (ln_option c x) = flags (ln_option c y)"
    using Cons.prems by (rule ln_option_flags_cong)
  from Cons.IH [OF this] show ?case by simp
qed

lemma fold_ln_option_skip:
  "flags (fold ln_option opts x) = flags (fold ln_option (filter known_option opts) x)"
proof (induction opts arbitrary: x)
  case Nil
  then show ?case by simp
next
  case (Cons c opts)
  show ?case
  proof (cases "known_option c")
    case True
    then show ?thesis using Cons.IH [of "ln_option c x"] by simp
  next
    case False
    then have "flags (ln_option c x) = flags x"
      using ln_option_flags_unrecognised [of c x] by (simp add: known_option_def)
    then have "flags (fold ln_option opts (ln_option c x)) = flags (fold ln_option opts x)"
      by (rule fold_ln_option_flags)
    then show ?thesis using False Cons.IH [of x] by simp
  qed
qed

subsection \<open>The batch driver\<close>

lemma ln_options_status:
  "status_code (ln_options opts) =
     (if \<exists>c \<in> set opts. \<not> known_option c then EXIT_FAILURE else EXIT_SUCCESS)"
  by (simp add: ln_options_def fold_ln_option_status EXIT_SUCCESS_def)

lemma ln_main_bad_flags:
  assumes "getopt ''fLPs'' (tl argv) = (opts, operands)"
    and "status_code (ln_options opts) \<noteq> EXIT_SUCCESS"
  shows "ln_main os argv w =
           Inr (status_code (ln_options opts), \<lparr>ctx = ln_options opts, world = w, trace = []\<rparr>)"
  using assms by (simp add: ln_main_def Let_def)

lemma ln_main_few_operands:
  assumes "getopt ''fLPs'' (tl argv) = (opts, operands)"
    and "status_code (ln_options opts) = EXIT_SUCCESS"
    and "length operands < 2"
  shows "ln_main os argv w =
           Inr (EXIT_FAILURE,
                ln_warn False ''must have >=2 file arguments''
                  \<lparr>ctx = ln_options opts, world = w, trace = []\<rparr>)"
  using assms by (simp add: ln_main_def Let_def) (simp add: ln_warn_def)

lemma last_operand:
  "2 \<le> length operands \<Longrightarrow>
     operands ! (length operands - 1) = last operands
     \<and> take (length operands - 1) operands = butlast operands"
  by (cases operands rule: rev_cases) (simp_all add: nth_append)

lemma last_operand_Suc:
  "2 \<le> length operands \<Longrightarrow>
     operands ! (length operands - Suc 0) = last operands
     \<and> take (length operands - Suc 0) operands = butlast operands"
  using last_operand [of operands] by simp

lemma ln_main_directory:
  assumes "getopt ''fLPs'' (tl argv) = (opts, operands)"
    and "status_code (ln_options opts) = EXIT_SUCCESS"
    and "2 \<le> length operands"
    and "os_stat os w (last operands) = Some target_sb"
    and "S_ISDIR (st_mode target_sb)"
  shows "ln_main os argv w =
           (case ln_target_dirs os (butlast operands) (last operands)
                   \<lparr>ctx = ln_options opts, world = w,
                      trace = [Stat (last operands) True]\<rparr> of
              Inl f \<Rightarrow> Inl f
            | Inr s2 \<Rightarrow> Inr (status_code (ctx s2), s2))"
proof -
  have st: "sys_stat os (last operands) \<lparr>ctx = ln_options opts, world = w, trace = []\<rparr> =
      (Some target_sb, \<lparr>ctx = ln_options opts, world = w, trace = [Stat (last operands) True]\<rparr>)"
    using assms(4) by (simp add: sys_stat_def Let_def)
  have n: "\<not> length operands < 2" using assms(3) by simp
  show ?thesis
    unfolding ln_main_def assms(1)
    using assms(2,5) n
    by (simp add: Let_def last_operand [OF assms(3)] last_operand_Suc [OF assms(3)] st split: sum.splits)
qed

lemma ln_main_not_directory:
  assumes "getopt ''fLPs'' (tl argv) = (opts, operands)"
    and "status_code (ln_options opts) = EXIT_SUCCESS"
    and "2 \<le> length operands"
    and "\<forall>target_sb. os_stat os w (last operands) = Some target_sb
           \<longrightarrow> \<not> S_ISDIR (st_mode target_sb)"
  shows "ln_main os argv w =
           (let s1 = \<lparr>ctx = ln_options opts, world = w,
                      trace = [Stat (last operands) (os_stat os w (last operands) \<noteq> None)]\<rparr>;
                s3 = (if length operands \<noteq> 2 then
                        ln_warn False
                          (if os_stat os w (last operands) = None
                           then ''only 2 operands allowed if final operand not a directory''
                           else ''final operand must be directory if > 2 operands'') s1
                      else ln_create_link os (operands ! 0) (operands ! 1) s1)
            in Inr (status_code (ctx s3), s3))"
proof -
  let ?s0 = "\<lparr>ctx = ln_options opts, world = w, trace = []\<rparr>"
  let ?s1 = "\<lparr>ctx = ln_options opts, world = w,
              trace = [Stat (last operands) (os_stat os w (last operands) \<noteq> None)]\<rparr>"
  have st: "sys_stat os (last operands) ?s0 = (os_stat os w (last operands), ?s1)"
    by (simp add: sys_stat_def Let_def)
  have n: "\<not> length operands < 2" using assms(3) by simp
  have fs: "status_code (ctx (ln_warn False m ?s1)) \<noteq> EXIT_SUCCESS" for m
    by (simp add: ln_warn_def EXIT_SUCCESS_def EXIT_FAILURE_def)
  show ?thesis
  proof (cases "os_stat os w (last operands)")
    case None
    show ?thesis
      unfolding ln_main_def assms(1)
      using assms(2) n None
      by (simp add: Let_def last_operand [OF assms(3)] last_operand_Suc [OF assms(3)] st)
  next
    case (Some target_sb)
    then have nd: "\<not> S_ISDIR (st_mode target_sb)" using assms(4) by simp
    show ?thesis
    proof (cases "length operands = 2")
      case True
      show ?thesis
        unfolding ln_main_def assms(1)
        using assms(2) n Some nd
        by (simp add: Let_def last_operand [OF assms(3)] last_operand_Suc [OF assms(3)] st;
            simp add: True)
    next
      case False
      then have gt: "2 < length operands" using assms(3) by simp
      show ?thesis
        unfolding ln_main_def assms(1)
        using assms(2) n Some nd False gt fs
        by (simp add: Let_def last_operand [OF assms(3)] last_operand_Suc [OF assms(3)] st)
    qed
  qed
qed


lemma ln_main_returns:
  assumes "\<forall>w'. os_stat os w' [] = None"
  shows "\<exists>code s'. ln_main os argv w = Inr (code, s')"
proof -
  obtain opts operands where g: "getopt ''fLPs'' (tl argv) = (opts, operands)"
    by (cases "getopt ''fLPs'' (tl argv)")
  show ?thesis
  proof (cases "status_code (ln_options opts) = EXIT_SUCCESS")
    case False
    then show ?thesis using ln_main_bad_flags [OF g False, of os w] by blast
  next
    case ok: True
    show ?thesis
    proof (cases "length operands < 2")
      case True
      then show ?thesis using ln_main_few_operands [OF g ok True, of os w] by blast
    next
      case False
      then have two: "2 \<le> length operands" by simp
      show ?thesis
      proof (cases "\<exists>target_sb. os_stat os w (last operands) = Some target_sb
                      \<and> S_ISDIR (st_mode target_sb)")
        case True
        then obtain target_sb where sb: "os_stat os w (last operands) = Some target_sb"
          "S_ISDIR (st_mode target_sb)" by blast
        have ne: "last operands \<noteq> []" using sb(1) assms by auto
        obtain s2 where "ln_target_dirs os (butlast operands) (last operands)
            \<lparr>ctx = ln_options opts, world = w, trace = [Stat (last operands) True]\<rparr> = Inr s2"
          using ln_target_dirs_no_fault [OF ne] by blast
        then show ?thesis using ln_main_directory [OF g ok two sb] by simp
      next
        case False
        then have nd: "\<forall>target_sb. os_stat os w (last operands) = Some target_sb
             \<longrightarrow> \<not> S_ISDIR (st_mode target_sb)" by blast
        show ?thesis
          using ln_main_not_directory [OF g ok two nd] by (simp add: Let_def)
      qed
    qed
  qed
qed

lemma unrecognized_iff:
  assumes "getopt ''fLPs'' args = (opts, operands)"
  shows "(CHR ''?'' \<in> set opts) = (status_code (ln_options opts) \<noteq> EXIT_SUCCESS)"
proof -
  have r: "\<forall>c \<in> set opts. known_option c \<or> c = CHR ''?''"
    using getopt_range [OF assms] by simp
  have "(CHR ''?'' \<in> set opts) = (\<exists>c \<in> set opts. \<not> known_option c)"
    using r question_mark_unknown by blast
  then show ?thesis
    by (simp add: ln_options_status EXIT_SUCCESS_def EXIT_FAILURE_def)
qed

subsection \<open>The program against the description of spec.md\<close>

lemma ln_remove_dest_resolves:
  assumes "ln_remove_dest os source_sb path_dest s = (ok, s2)"
  shows "resolveDestination os (flags (ctx s)) source_sb path_dest (world s) = (ok, world s2)
         \<and> flags (ctx s2) = flags (ctx s)
         \<and> status_code (ctx s2) = (if ok then status_code (ctx s) else EXIT_FAILURE)"
proof (cases "os_stat os (world s) path_dest")
  case None
  then show ?thesis
    using assms
    by (auto simp: ln_remove_dest_def sys_stat_def Let_def resolveDestination_def)
next
  case (Some dest_sb)
  let ?s1 = "s\<lparr>trace := trace s @ [Stat path_dest True]\<rparr>"
  have st: "sys_stat os path_dest s = (Some dest_sb, ?s1)"
    using Some by (simp add: sys_stat_def Let_def)
  obtain rc w1 where u: "os_unlink os (world s) path_dest = (rc, w1)"
    by (cases "os_unlink os (world s) path_dest")
  have su: "sys_unlink os path_dest ?s1 =
              (rc, s\<lparr>world := w1, trace := trace s @ [Stat path_dest True, Unlink path_dest rc]\<rparr>)"
    using u by (simp add: sys_unlink_def)
  show ?thesis
    using assms Some u
    by (auto simp: ln_remove_dest_def st su resolveDestination_def ln_same_file_def
          ln_warn_def split: if_splits)
qed

lemma agrees_create_link:
  assumes "createLink os (flags (ctx s)) path_source path_dest (world s) = (r, w')"
  shows "agrees s (ln_create_link os path_source path_dest s) [r] w'"
proof (cases "os_lstat os (world s) path_source")
  case None
  then have "ln_create_link os path_source path_dest s =
      ln_warn True (''lstat('' @ path_source @ '')'')
        (s\<lparr>trace := trace s @ [Lstat path_source False]\<rparr>)"
    by (simp add: ln_create_link_def sys_lstat_def Let_def)
  moreover have "r = Lookup_failed \<and> w' = world s"
    using assms None by (simp add: createLink_def)
  ultimately show ?thesis by (simp add: agrees_def ln_warn_def)
next
  case (Some source_sb)
  let ?s1 = "s\<lparr>trace := trace s @ [Lstat path_source True]\<rparr>"
  obtain ok s2 where rm: "ln_remove_dest os source_sb path_dest ?s1 = (ok, s2)"
    by (cases "ln_remove_dest os source_sb path_dest ?s1")
  have res: "resolveDestination os (flags (ctx s)) source_sb path_dest (world s) = (ok, world s2)"
    and fl: "flags (ctx s2) = flags (ctx s)"
    and st: "status_code (ctx s2) = (if ok then status_code (ctx s) else EXIT_FAILURE)"
    using ln_remove_dest_resolves [OF rm] by simp_all
  show ?thesis
  proof (cases ok)
    case False
    then have "ln_create_link os path_source path_dest s = s2"
      using Some rm by (simp add: ln_create_link_def sys_lstat_def Let_def)
    moreover have "r = Removal_failed \<and> w' = world s2"
      using assms Some res False by (simp add: createLink_def)
    ultimately show ?thesis using fl st False by (simp add: agrees_def)
  next
    case True
    let ?flag = "if flags (ctx s) AND LN_FLAG_FOLLOW_SYMBOLIC \<noteq> 0
                 then AT_SYMLINK_FOLLOW else 0"
    let ?oscall = "if flags (ctx s) AND LN_FLAG_SYMBOLIC \<noteq> 0 then
               os_symlink os (world s2) path_source path_dest
             else if S_ISLNK (st_mode source_sb) then
               os_linkat os (world s2) AT_FDCWD path_source AT_FDCWD path_dest ?flag
             else os_link os (world s2) path_source path_dest"
    let ?call = "if flags (ctx s) AND LN_FLAG_SYMBOLIC \<noteq> 0 then
               sys_symlink os path_source path_dest s2
             else if S_ISLNK (st_mode source_sb) then
               sys_linkat os AT_FDCWD path_source AT_FDCWD path_dest ?flag s2
             else sys_link os path_source path_dest s2"
    obtain rc w2 where oc: "?oscall = (rc, w2)" by (cases ?oscall)
    have spec: "r = (if rc = 0 then Linked else Creation_failed) \<and> w' = w2"
      using assms Some res True oc by (simp add: createLink_def)
    obtain s3 where c: "?call = (rc, s3)" and s3: "world s3 = w2" "ctx s3 = ctx s2"
      using oc
      by (cases "flags (ctx s) AND LN_FLAG_SYMBOLIC \<noteq> 0"; cases "S_ISLNK (st_mode source_sb)")
         (simp_all add: sys_symlink_def sys_linkat_def sys_link_def)
    have run: "ln_create_link os path_source path_dest s =
        (if rc \<noteq> 0 then
           ln_warn True (''failed to create link: '' @ path_source @ '' - '' @ path_dest) s3
         else s3)"
      using ln_create_link_after_remove [OF Some, of path_dest s2] rm True c by simp
    show ?thesis
      unfolding run using spec s3 fl st True
      by (simp add: agrees_def ln_warn_def)
  qed
qed

lemma basename_length: "length (basename p) \<le> max 1 (length p)"
proof -
  have d: "length (dropWhile (\<lambda>c. c = CHR ''/'') (rev p)) \<le> length p"
    using length_dropWhile_le [of "\<lambda>c. c = CHR ''/''" "rev p"] by simp
  have "length (takeWhile (\<lambda>c. c \<noteq> CHR ''/'') (rev (strip_trailing_slashes p))) \<le> length p"
    using length_takeWhile_le [of "\<lambda>c. c \<noteq> CHR ''/''" "rev (strip_trailing_slashes p)"] d
    by (simp add: strip_trailing_slashes_def)
  then show ?thesis by (auto simp: basename_def Let_def max_def)
qed

lemma si_add_size_t_wraps:
  "2 ^ 64 \<le> unat a + unat b \<Longrightarrow> fst (si_add_size_t a b) = False"
  by (simp add: si_add_size_t_def Let_def size_t_add_no_wrap)

lemma ln_path_target_concat_composes:
  assumes lt: "length target_dir < 2 ^ 64" and ls: "length source_file < 2 ^ 64"
    and run: "ln_path_target_concat os target_dir source_file s = Inr (r, s1)"
  shows "composeTargetPath os target_dir source_file (world s) = (r, world s1) \<and> ctx s1 = ctx s"
proof -
  let ?bn = "basename source_file"
  let ?n = "length target_dir" and ?m = "length ?bn"
  have lb: "?m < 2 ^ 64" using basename_length [of source_file] ls by simp
  have un: "unat (strlen target_dir) = ?n" and um: "unat (strlen ?bn) = ?m"
    using lt lb by (simp_all add: unat_strlen)
  obtain ok1 w1 where a1: "os_alloc os (world s) (Suc (length source_file)) = (ok1, w1)"
    by (cases "os_alloc os (world s) (Suc (length source_file))")
  show ?thesis
  proof (cases ok1)
    case False
    have sa1: "sys_alloc os (Suc (length source_file)) s =
        (False, s\<lparr>world := w1, trace := trace s @ [Alloc (Suc (length source_file)) False]\<rparr>)"
      using a1 False by (simp add: sys_alloc_def)
    have "r = None \<and> world s1 = w1 \<and> ctx s1 = ctx s"
      using run by (auto simp: ln_path_target_concat_def sa1)
    then show ?thesis using a1 False by (simp add: composeTargetPath_def)
  next
    case True
    let ?s1 = "s\<lparr>world := w1, trace := trace s @ [Alloc (Suc (length source_file)) True]\<rparr>"
    have sa1: "sys_alloc os (Suc (length source_file)) s = (True, ?s1)"
      using a1 True by (simp add: sys_alloc_def)
    show ?thesis
    proof (cases "2 ^ 64 \<le> ?n + ?m + 2")
      case over: True
      have "r = None \<and> s1 = ?s1"
      proof (cases "2 ^ 64 \<le> ?n + ?m")
        case True
        then have "fst (si_add_size_t (strlen target_dir) (strlen ?bn)) = False"
          by (intro si_add_size_t_wraps) (simp add: un um)
        then show ?thesis
          using run
          by (cases "si_add_size_t (strlen target_dir) (strlen ?bn)")
             (auto simp: ln_path_target_concat_def sa1 Let_def)
      next
        case False
        then have fit: "unat (strlen target_dir) + unat (strlen ?bn) < 2 ^ 64"
          by (simp add: un um)
        have e1: "si_add_size_t (strlen target_dir) (strlen ?bn) =
                    (True, strlen target_dir + strlen ?bn)"
          using fit by (rule si_add_size_t_fits)
        have u1: "unat (strlen target_dir + strlen ?bn) = ?n + ?m"
          using unat_add_fits [OF fit] by (simp add: un um)
        have "fst (si_add_size_t (strlen target_dir + strlen ?bn) 2) = False"
          using over by (intro si_add_size_t_wraps) (simp add: u1)
        then show ?thesis
          using run
          by (cases "si_add_size_t (strlen target_dir + strlen ?bn) 2")
             (auto simp: ln_path_target_concat_def sa1 Let_def e1)
      qed
      then show ?thesis using a1 True over by (simp add: composeTargetPath_def)
    next
      case fits: False
      have fit: "unat (strlen target_dir) + unat (strlen ?bn) < 2 ^ 64"
        using fits by (simp add: un um)
      have e1: "si_add_size_t (strlen target_dir) (strlen ?bn) =
                  (True, strlen target_dir + strlen ?bn)"
        using fit by (rule si_add_size_t_fits)
      have u1: "unat (strlen target_dir + strlen ?bn) = ?n + ?m"
        using unat_add_fits [OF fit] by (simp add: un um)
      have fit2: "unat (strlen target_dir + strlen ?bn) + unat (2 :: size_t) < 2 ^ 64"
        using fits by (simp add: u1)
      have e2: "si_add_size_t (strlen target_dir + strlen ?bn) 2 =
                  (True, strlen target_dir + strlen ?bn + 2)"
        using fit2 by (rule si_add_size_t_fits)
      have u2: "unat (strlen target_dir + strlen ?bn + 2) = ?n + ?m + 2"
        using unat_add_fits [OF fit2] by (simp add: u1)
      obtain ok2 w2 where a2: "os_alloc os w1 (?n + ?m + 2) = (ok2, w2)"
        by (cases "os_alloc os w1 (?n + ?m + 2)")
      have sa2: "sys_alloc os (unat (strlen target_dir + strlen ?bn + 2)) ?s1 =
          (ok2, s\<lparr>world := w2, trace := trace s @
                 [Alloc (Suc (length source_file)) True, Alloc (?n + ?m + 2) ok2]\<rparr>)"
        unfolding u2 using a2 by (simp add: sys_alloc_def)
      show ?thesis
      proof (cases ok2)
        case False
        have "r = None \<and> world s1 = w2 \<and> ctx s1 = ctx s"
          using run False
          by (auto simp: ln_path_target_concat_def sa1 Let_def e1 e2 sa2)
        then show ?thesis using a1 True fits a2 False by (simp add: composeTargetPath_def)
      next
        case ok: True
        have ne: "target_dir \<noteq> []"
        proof
          assume "target_dir = []"
          then have "c_index target_dir (strlen target_dir - 1) = Inl (OutOfBounds [] SIZE_MAX)"
            using c_index_empty by simp
          then show False
            using run ok
            by (auto simp: ln_path_target_concat_def sa1 Let_def e1 e2 sa2)
        qed
        have ix: "c_index target_dir (strlen target_dir - 1) = Inr (last target_dir)"
          using ne lt by (rule c_index_last)
        have "r = Some (target_dir @ (if last target_dir \<noteq> CHR ''/'' then ''/'' else []) @ ?bn)
              \<and> world s1 = w2 \<and> ctx s1 = ctx s"
          using run ok
          by (auto simp: ln_path_target_concat_def sa1 Let_def e1 e2 sa2 ix)
        then show ?thesis
          using a1 True fits a2 ok ne by (auto simp: composeTargetPath_def)
      qed
    qed
  qed
qed

lemma agrees_trans:
  assumes "agrees s s1 rs1 w1" and "agrees s1 s2 rs2 w2"
  shows "agrees s s2 (rs1 @ rs2) w2"
  using assms by (auto simp: agrees_def)

lemma agrees_target_dir:
  assumes lt: "length target_dir < 2 ^ 64" and ls: "length source_file < 2 ^ 64"
    and run: "ln_target_dir os source_file target_dir s = Inr s'"
    and spec: "linkIntoDirectory os (flags (ctx s)) source_file target_dir (world s) = (r, w')"
  shows "agrees s s' [r] w'"
proof (cases "ln_path_target_concat os target_dir source_file s")
  case (Inl f)
  then show ?thesis using run by (simp add: ln_target_dir_def)
next
  case (Inr x)
  obtain p s1 where x: "x = (p, s1)" by (cases x)
  have pc: "ln_path_target_concat os target_dir source_file s = Inr (p, s1)"
    using Inr x by simp
  have cp: "composeTargetPath os target_dir source_file (world s) = (p, world s1)"
    and cx: "ctx s1 = ctx s"
    using ln_path_target_concat_composes [OF lt ls pc] by simp_all
  show ?thesis
  proof (cases p)
    case None
    then have "s' = ln_warn True ''alloc'' s1"
      using run pc by (simp add: ln_target_dir_def)
    moreover have "r = Composition_failed \<and> w' = world s1"
      using spec cp None by (simp add: linkIntoDirectory_def)
    ultimately show ?thesis using cx by (simp add: agrees_def ln_warn_def)
  next
    case (Some path_dest)
    then have s': "s' = ln_create_link os source_file path_dest s1"
      using run pc by (simp add: ln_target_dir_def)
    have "createLink os (flags (ctx s1)) source_file path_dest (world s1) = (r, w')"
      using spec cp Some cx by (simp add: linkIntoDirectory_def)
    then have "agrees s1 s' [r] w'" unfolding s' by (rule agrees_create_link)
    then show ?thesis using cx by (simp add: agrees_def)
  qed
qed

lemma agrees_target_dirs:
  assumes "length target_dir < 2 ^ 64"
  shows "\<forall>a \<in> set sources. length a < 2 ^ 64 \<Longrightarrow>
         ln_target_dirs os sources target_dir s = Inr s' \<Longrightarrow>
         linkAll os (flags (ctx s)) sources target_dir (world s) = (rs, w') \<Longrightarrow>
         agrees s s' rs w'"
proof (induction sources arbitrary: s rs w')
  case Nil
  then show ?case by (simp add: agrees_def)
next
  case (Cons source_file sources)
  obtain s1 where s1: "ln_target_dir os source_file target_dir s = Inr s1"
    and rest: "ln_target_dirs os sources target_dir s1 = Inr s'"
    using Cons.prems(2) by (auto split: sum.splits)
  obtain r w1 where sp: "linkIntoDirectory os (flags (ctx s)) source_file target_dir (world s)
                           = (r, w1)"
    by (cases "linkIntoDirectory os (flags (ctx s)) source_file target_dir (world s)")
  have ls: "length source_file < 2 ^ 64" using Cons.prems(1) by simp
  have a1: "agrees s s1 [r] w1" using assms ls s1 sp by (rule agrees_target_dir)
  then have w1: "world s1 = w1" and f1: "flags (ctx s1) = flags (ctx s)"
    by (simp_all add: agrees_def)
  obtain rs1 w2 where sp2: "linkAll os (flags (ctx s1)) sources target_dir (world s1) = (rs1, w2)"
    by (cases "linkAll os (flags (ctx s1)) sources target_dir (world s1)")
  have eq: "rs = r # rs1 \<and> w' = w2"
    using Cons.prems(3) sp sp2 w1 f1 by simp
  have "\<forall>a \<in> set sources. length a < 2 ^ 64" using Cons.prems(1) by simp
  then have a2: "agrees s1 s' rs1 w2" using rest sp2 by (rule Cons.IH)
  show ?case using agrees_trans [OF a1 a2] eq by simp
qed

lemma getopt_operands:
  "getopt optstring args = (opts, operands) \<Longrightarrow> set operands \<subseteq> set args"
proof (induction optstring args arbitrary: opts operands rule: getopt.induct)
  case (1 optstring)
  then show ?case by simp
next
  case (2 optstring a args)
  obtain o1 r1 where g: "getopt optstring args = (o1, r1)"
    by (cases "getopt optstring args")
  have "operands = args \<or> operands = a # args \<or> (operands = r1 \<and> set r1 \<subseteq> set args)"
  proof (cases "a = ''--''")
    case True
    then show ?thesis using "2.prems" by simp
  next
    case False
    show ?thesis
    proof (cases a)
      case Nil
      then show ?thesis using "2.prems" False by simp
    next
      case (Cons c t)
      show ?thesis
      proof (cases t)
        case Nil
        then show ?thesis using "2.prems" False Cons by simp
      next
        case (Cons d cs)
        show ?thesis
        proof (cases "c = CHR ''-''")
          case True
          have ih: "set r1 \<subseteq> set args"
            using "2.IH" [OF False \<open>a = c # t\<close> Cons True g] .
          have "operands = r1"
            using "2.prems" False \<open>a = c # t\<close> Cons True g by auto
          then show ?thesis using ih by blast
        next
          case False
          then show ?thesis using "2.prems" \<open>a \<noteq> ''--''\<close> \<open>a = c # t\<close> Cons by simp
        qed
      qed
    qed
  qed
  then show ?case by auto
qed

lemma batchDriver_bad_flags:
  assumes "getopt ''fLPs'' (tl argv) = (opts, operands)"
    and "\<exists>c \<in> set opts. \<not> known_option c"
  shows "batchDriver os argv w = (None, w)"
  unfolding batchDriver_def assms(1) using assms(2) by simp

lemma batchDriver_few:
  assumes "getopt ''fLPs'' (tl argv) = (opts, operands)"
    and "\<not> (\<exists>c \<in> set opts. \<not> known_option c)"
    and "length operands < 2"
  shows "batchDriver os argv w = (None, w)"
  unfolding batchDriver_def assms(1) using assms(2,3) by simp

lemma batchDriver_directory:
  assumes "getopt ''fLPs'' (tl argv) = (opts, operands)"
    and "\<not> (\<exists>c \<in> set opts. \<not> known_option c)"
    and "\<not> length operands < 2"
    and "os_stat os w (last operands) = Some target_sb"
    and "S_ISDIR (st_mode target_sb)"
    and "linkAll os (flags (ln_options opts)) (butlast operands) (last operands) w = (rs, w1)"
  shows "batchDriver os argv w = (Some rs, w1)"
  unfolding batchDriver_def assms(1) using assms(2,3,4,5,6) by simp

lemma batchDriver_many:
  assumes "getopt ''fLPs'' (tl argv) = (opts, operands)"
    and "\<not> (\<exists>c \<in> set opts. \<not> known_option c)"
    and "2 < length operands"
    and "\<forall>target_sb. os_stat os w (last operands) = Some target_sb
           \<longrightarrow> \<not> S_ISDIR (st_mode target_sb)"
  shows "batchDriver os argv w = (None, w)"
proof -
  have nd: "(case os_stat os w (last operands) of
               None \<Rightarrow> False | Some sb \<Rightarrow> S_ISDIR (st_mode sb)) = False"
    using assms(4) by (simp split: option.splits)
  have n: "\<not> length operands < 2" using assms(3) by simp
  show ?thesis
    unfolding batchDriver_def assms(1) prod.case nd using assms(2,3) n by simp
qed

lemma batchDriver_pair:
  assumes "getopt ''fLPs'' (tl argv) = (opts, operands)"
    and "\<not> (\<exists>c \<in> set opts. \<not> known_option c)"
    and "length operands = 2"
    and "\<forall>target_sb. os_stat os w (last operands) = Some target_sb
           \<longrightarrow> \<not> S_ISDIR (st_mode target_sb)"
    and "createLink os (flags (ln_options opts)) (operands ! 0) (operands ! 1) w = (st, w1)"
  shows "batchDriver os argv w = (Some [st], w1)"
proof -
  have nd: "(case os_stat os w (last operands) of
               None \<Rightarrow> False | Some sb \<Rightarrow> S_ISDIR (st_mode sb)) = False"
    using assms(4) by (simp split: option.splits)
  show ?thesis
    unfolding batchDriver_def assms(1) prod.case nd using assms(2,3,5) by simp
qed

lemma ln_main_refines:
  assumes len: "\<forall>a \<in> set argv. length a < 2 ^ 64"
    and run: "ln_main os argv w = Inr (code, s')"
  shows "(code = EXIT_FAILURE) =
           (case fst (batchDriver os argv w) of
              None \<Rightarrow> True
            | Some steps \<Rightarrow> \<exists>r \<in> set steps. r \<noteq> Linked)
         \<and> (code = EXIT_SUCCESS \<or> code = EXIT_FAILURE)
         \<and> world s' = snd (batchDriver os argv w)"
proof -
  obtain opts operands where g: "getopt ''fLPs'' (tl argv) = (opts, operands)"
    by (cases "getopt ''fLPs'' (tl argv)")
  have "set (tl argv) \<subseteq> set argv" by (cases argv) auto
  then have lo: "\<forall>a \<in> set operands. length a < 2 ^ 64"
    using getopt_operands [OF g] len by blast
  let ?fl = "flags (ln_options opts)"
  let ?s0 = "\<lparr>ctx = ln_options opts, world = w, trace = []\<rparr>"
  have ne: "EXIT_SUCCESS \<noteq> EXIT_FAILURE" by (simp add: EXIT_SUCCESS_def EXIT_FAILURE_def)
  have failed: ?thesis if "code = EXIT_FAILURE" "world s' = w" "batchDriver os argv w = (None, w)"
    using that by simp
  have finished: ?thesis
    if "code = status_code (ctx s')" "agrees s1 s' rs w1" "status_code (ctx s1) = EXIT_SUCCESS"
      "batchDriver os argv w = (Some rs, w1)" for s1 rs w1
  proof -
    have "world s' = w1"
      and "status_code (ctx s') =
             (if \<exists>r \<in> set rs. r \<noteq> Linked then EXIT_FAILURE else EXIT_SUCCESS)"
      using that(2,3) by (simp_all add: agrees_def)
    then show ?thesis using that(1,4) ne by simp
  qed
  show ?thesis
  proof (cases "status_code (ln_options opts) = EXIT_SUCCESS")
    case False
    then have bad: "\<exists>c \<in> set opts. \<not> known_option c"
      by (simp add: ln_options_status split: if_splits)
    have f: "status_code (ln_options opts) = EXIT_FAILURE"
      using False by (simp add: ln_options_status split: if_splits)
    have "Inr (code, s') = Inr (EXIT_FAILURE, ?s0)"
      using ln_main_bad_flags [OF g False, of os w] run f by simp
    then have "code = EXIT_FAILURE" "world s' = w" by simp_all
    then show ?thesis using batchDriver_bad_flags [OF g bad] by (rule failed)
  next
    case ok: True
    then have good: "\<not> (\<exists>c \<in> set opts. \<not> known_option c)"
      using ne by (simp add: ln_options_status split: if_splits)
    show ?thesis
    proof (cases "length operands < 2")
      case True
      have "Inr (code, s') =
              Inr (EXIT_FAILURE, ln_warn False ''must have >=2 file arguments'' ?s0)"
        using ln_main_few_operands [OF g ok True, of os w] run by simp
      then have "code = EXIT_FAILURE" "world s' = w" by (simp_all add: ln_warn_def)
      then show ?thesis using batchDriver_few [OF g good True] by (rule failed)
    next
      case False
      then have two: "2 \<le> length operands" by simp
      then have "operands \<noteq> []" by auto
      then have ll: "length (last operands) < 2 ^ 64" using lo by simp
      have lb: "\<forall>a \<in> set (butlast operands). length a < 2 ^ 64"
        using lo by (meson in_set_butlastD)
      show ?thesis
      proof (cases "\<exists>target_sb. os_stat os w (last operands) = Some target_sb
                      \<and> S_ISDIR (st_mode target_sb)")
        case True
        then obtain target_sb where sb: "os_stat os w (last operands) = Some target_sb"
          "S_ISDIR (st_mode target_sb)" by blast
        let ?s1 = "\<lparr>ctx = ln_options opts, world = w, trace = [Stat (last operands) True]\<rparr>"
        have "(case ln_target_dirs os (butlast operands) (last operands) ?s1 of
                 Inl f \<Rightarrow> Inl f
               | Inr s2 \<Rightarrow> Inr (status_code (ctx s2), s2)) = Inr (code, s')"
          using ln_main_directory [OF g ok two sb] run by simp
        then have loop: "ln_target_dirs os (butlast operands) (last operands) ?s1 = Inr s'"
          and code: "code = status_code (ctx s')"
          by (simp_all split: sum.splits)
        obtain rs w1 where sp: "linkAll os ?fl (butlast operands) (last operands) w = (rs, w1)"
          by (cases "linkAll os ?fl (butlast operands) (last operands) w")
        have a: "agrees ?s1 s' rs w1"
          using agrees_target_dirs [OF ll lb loop] sp by simp
        show ?thesis
          using code a _ batchDriver_directory [OF g good False sb sp]
          by (rule finished) (simp add: ok)
      next
        case nodir: False
        then have nd: "\<forall>target_sb. os_stat os w (last operands) = Some target_sb
             \<longrightarrow> \<not> S_ISDIR (st_mode target_sb)" by blast
        let ?s1 = "\<lparr>ctx = ln_options opts, world = w,
                    trace = [Stat (last operands) (os_stat os w (last operands) \<noteq> None)]\<rparr>"
        show ?thesis
        proof (cases "length operands = 2")
          case False
          then have gt: "2 < length operands" using two by simp
          have "\<exists>m. Inr (code, s') =
                   Inr (status_code (ctx (ln_warn False m ?s1)), ln_warn False m ?s1)"
            using ln_main_not_directory [OF g ok two nd] run False
            by (simp add: Let_def) metis
          then have "code = EXIT_FAILURE" "world s' = w" by (auto simp: ln_warn_def)
          then show ?thesis using batchDriver_many [OF g good gt nd] by (rule failed)
        next
          case True
          have "Inr (code, s') =
                  Inr (status_code (ctx (ln_create_link os (operands ! 0) (operands ! 1) ?s1)),
                       ln_create_link os (operands ! 0) (operands ! 1) ?s1)"
            using ln_main_not_directory [OF g ok two nd] run
            by (simp add: Let_def; simp add: True)
          then have r: "s' = ln_create_link os (operands ! 0) (operands ! 1) ?s1"
            and code: "code = status_code (ctx s')" by simp_all
          obtain st w1 where sp: "createLink os ?fl (operands ! 0) (operands ! 1) w = (st, w1)"
            by (cases "createLink os ?fl (operands ! 0) (operands ! 1) w")
          have a: "agrees ?s1 s' [st] w1"
            unfolding r using sp by (intro agrees_create_link) simp
          show ?thesis
            using code a _ batchDriver_pair [OF g good True nd sp]
            by (rule finished) (simp add: ok)
        qed
      qed
    qed
  qed
qed

lemma foldl_fault:
  "foldl (\<lambda>r source_file. case r of Inl f \<Rightarrow> Inl f
                             | Inr s \<Rightarrow> ln_target_dir os source_file target_dir s)
     (Inl f) sources = Inl f"
  by (induction sources) simp_all

lemma ln_target_dirs_foldl:
  "ln_target_dirs os sources target_dir s =
     foldl (\<lambda>r source_file. case r of Inl f \<Rightarrow> Inl f
                               | Inr s \<Rightarrow> ln_target_dir os source_file target_dir s)
       (Inr s) sources"
proof (induction sources arbitrary: s)
  case Nil
  then show ?case by simp
next
  case (Cons source_file sources)
  show ?case
  proof (cases "ln_target_dir os source_file target_dir s")
    case (Inl f)
    then show ?thesis by (simp add: foldl_fault)
  next
    case (Inr s1)
    then show ?thesis using Cons.IH [of s1] by simp
  qed
qed

text \<open>
  C2. Whenever \<^verbatim>\<open>ln_main\<close> returns, its exit status is \<^verbatim>\<open>EXIT_FAILURE\<close> exactly when,
  in the description of spec.md, argument validation fails (an unrecognised flag or a
  wrong operand count) or the outcome of at least one source operand is a failed
  lookup, composition, removal or link creation; otherwise it is \<^verbatim>\<open>EXIT_SUCCESS\<close>.
  The outcomes are computed from the results of the system calls alone, so the
  statement fails for a program that warns without a failed step, or that lets a
  failed step pass in silence. The world the program leaves is the one of the
  description. And \<^verbatim>\<open>ln_main\<close> does return on every operating system where
  \<^verbatim>\<open>stat\<close> of the empty path fails, as POSIX requires. Strings are shorter than
  \<open>2 ^ 64\<close>, the range of \<^verbatim>\<open>size_t\<close>.
\<close>

theorem ln_main_exit_status:
  assumes "\<forall>a \<in> set argv. length a < 2 ^ 64"
  shows "(\<forall>code s'. ln_main os argv w = Inr (code, s') \<longrightarrow>
            (code = EXIT_FAILURE) =
              (case fst (batchDriver os argv w) of
                 None \<Rightarrow> True
               | Some steps \<Rightarrow> \<exists>r \<in> set steps. r \<noteq> Linked)
            \<and> (code = EXIT_SUCCESS \<or> code = EXIT_FAILURE)
            \<and> world s' = snd (batchDriver os argv w))
       \<and> ((\<forall>w'. os_stat os w' [] = None) \<longrightarrow>
            (\<exists>code s'. ln_main os argv w = Inr (code, s')))"
proof (rule conjI)
  show "\<forall>code s'. ln_main os argv w = Inr (code, s') \<longrightarrow>
            (code = EXIT_FAILURE) =
              (case fst (batchDriver os argv w) of
                 None \<Rightarrow> True
               | Some steps \<Rightarrow> \<exists>r \<in> set steps. r \<noteq> Linked)
            \<and> (code = EXIT_SUCCESS \<or> code = EXIT_FAILURE)
            \<and> world s' = snd (batchDriver os argv w)"
  proof (intro allI impI)
    fix code s'
    assume "ln_main os argv w = Inr (code, s')"
    with assms show "(code = EXIT_FAILURE) =
              (case fst (batchDriver os argv w) of
                 None \<Rightarrow> True
               | Some steps \<Rightarrow> \<exists>r \<in> set steps. r \<noteq> Linked)
            \<and> (code = EXIT_SUCCESS \<or> code = EXIT_FAILURE)
            \<and> world s' = snd (batchDriver os argv w)"
      by (rule ln_main_refines)
  qed
next
  show "(\<forall>w'. os_stat os w' [] = None) \<longrightarrow>
            (\<exists>code s'. ln_main os argv w = Inr (code, s'))"
  proof
    assume "\<forall>w'. os_stat os w' [] = None"
    then show "\<exists>code s'. ln_main os argv w = Inr (code, s')"
      by (rule ln_main_returns)
  qed
qed

theorem ln_main_exit_status_witness:
  "(\<forall>w'. os_stat table_os w' [] = None)
   \<and> batchDriver table_os [''ln'', ''a.txt'', ''b.txt''] table0 = (Some [Removal_failed], table0)
   \<and> (\<exists>s'. ln_main table_os [''ln'', ''a.txt'', ''b.txt''] table0 = Inr (EXIT_FAILURE, s')
            \<and> world s' = table0)
   \<and> batchDriver table_os [''ln'', ''a.txt'', ''c.txt''] table0 =
       (Some [Linked], (''c.txt'', \<lparr>st_dev = 1, st_ino = 10, st_mode = 0x81A4\<rparr>) # table0)
   \<and> (\<exists>s'. ln_main table_os [''ln'', ''a.txt'', ''c.txt''] table0 = Inr (EXIT_SUCCESS, s')
            \<and> world s' = (''c.txt'', \<lparr>st_dev = 1, st_ino = 10, st_mode = 0x81A4\<rparr>) # table0)
   \<and> batchDriver table_os [''ln'', ''missing'', ''a.txt'', ''dir''] table0 =
       (Some [Lookup_failed, Linked],
        (''dir/a.txt'', \<lparr>st_dev = 1, st_ino = 10, st_mode = 0x81A4\<rparr>) # table0)
   \<and> (\<exists>s'. ln_main table_os [''ln'', ''missing'', ''a.txt'', ''dir''] table0 =
              Inr (EXIT_FAILURE, s')
            \<and> world s' = (''dir/a.txt'', \<lparr>st_dev = 1, st_ino = 10, st_mode = 0x81A4\<rparr>) # table0)
   \<and> batchDriver table_os [''ln'', ''a.txt''] table0 = (None, table0)
   \<and> (\<exists>s'. ln_main table_os [''ln'', ''a.txt''] table0 = Inr (EXIT_FAILURE, s')
            \<and> world s' = table0)"
proof -
  have posix: "\<forall>w'. os_stat table_os w' [] = None"
    by (simp add: table_os_def)
  have ne: "EXIT_SUCCESS \<noteq> EXIT_FAILURE" by (simp add: EXIT_SUCCESS_def EXIT_FAILURE_def)
  have b: "basename ''a.txt'' = ''a.txt''" "basename ''missing'' = ''missing''"
    by (simp_all add: basename_def strip_trailing_slashes_def)
  have k: "\<not> (\<exists>c \<in> set []. \<not> known_option c)" by simp
  have d1: "batchDriver table_os [''ln'', ''a.txt'', ''b.txt''] table0 =
              (Some [Removal_failed], table0)"
    by (simp add: batchDriver_def ln_options_def createLink_def resolveDestination_def
          table_os_def table0_def S_ISDIR_def S_IFMT_def S_IFDIR_def LN_FLAG_REMOVE_DEST_def)
  have d2: "batchDriver table_os [''ln'', ''a.txt'', ''c.txt''] table0 =
       (Some [Linked], (''c.txt'', \<lparr>st_dev = 1, st_ino = 10, st_mode = 0x81A4\<rparr>) # table0)"
    by (simp add: batchDriver_def ln_options_def createLink_def resolveDestination_def
          table_os_def table0_def table_add_def S_ISLNK_def S_IFLNK_def S_IFMT_def
          LN_FLAG_SYMBOLIC_def)
  have d3: "batchDriver table_os [''ln'', ''missing'', ''a.txt'', ''dir''] table0 =
       (Some [Lookup_failed, Linked],
        (''dir/a.txt'', \<lparr>st_dev = 1, st_ino = 10, st_mode = 0x81A4\<rparr>) # table0)"
    by (simp add: batchDriver_def ln_options_def linkIntoDirectory_def composeTargetPath_def b
          createLink_def resolveDestination_def
          table_os_def table0_def table_add_def S_ISDIR_def S_IFDIR_def
          S_ISLNK_def S_IFLNK_def S_IFMT_def LN_FLAG_SYMBOLIC_def)
  have d4: "batchDriver table_os [''ln'', ''a.txt''] table0 = (None, table0)"
    by (simp add: batchDriver_def)
  have r1: "\<exists>s'. ln_main table_os [''ln'', ''a.txt'', ''b.txt''] table0 = Inr (EXIT_FAILURE, s')
            \<and> world s' = table0"
    using ln_main_exit_status [of "[''ln'', ''a.txt'', ''b.txt'']" table_os table0] posix d1
    by (simp, blast)
  have r2: "\<exists>s'. ln_main table_os [''ln'', ''a.txt'', ''c.txt''] table0 = Inr (EXIT_SUCCESS, s')
            \<and> world s' = (''c.txt'', \<lparr>st_dev = 1, st_ino = 10, st_mode = 0x81A4\<rparr>) # table0"
    using ln_main_exit_status [of "[''ln'', ''a.txt'', ''c.txt'']" table_os table0] posix d2 ne
    by (simp, blast)
  have r3: "\<exists>s'. ln_main table_os [''ln'', ''missing'', ''a.txt'', ''dir''] table0 =
              Inr (EXIT_FAILURE, s')
            \<and> world s' = (''dir/a.txt'', \<lparr>st_dev = 1, st_ino = 10, st_mode = 0x81A4\<rparr>) # table0"
    using ln_main_exit_status [of "[''ln'', ''missing'', ''a.txt'', ''dir'']" table_os table0]
      posix d3
    by (simp, blast)
  have r4: "\<exists>s'. ln_main table_os [''ln'', ''a.txt''] table0 = Inr (EXIT_FAILURE, s')
            \<and> world s' = table0"
    using ln_main_exit_status [of "[''ln'', ''a.txt'']" table_os table0] posix d4
    by (simp, blast)
  show ?thesis using posix d1 d2 d3 d4 r1 r2 r3 r4 by (intro conjI)
qed

text \<open>
  C8. When \<^verbatim>\<open>getopt\<close> meets an unrecognised option, \<^verbatim>\<open>ln_main\<close> returns
  \<^verbatim>\<open>EXIT_FAILURE\<close> with an empty trace and the world it started in: no \<^verbatim>\<open>stat\<close>, no
  removal, no link. The option loop still runs over every option: the flags are those
  of the recognised options before and after the unrecognised one.
\<close>

theorem ln_main_unrecognized_flag:
  assumes "getopt ''fLPs'' (tl argv) = (opts, operands)"
    and "CHR ''?'' \<in> set opts"
  shows "ln_main os argv w =
           Inr (EXIT_FAILURE, \<lparr>ctx = ln_options opts, world = w, trace = []\<rparr>)
         \<and> status_code (ln_options opts) = EXIT_FAILURE
         \<and> flags (ln_options opts) = flags (ln_options (filter known_option opts))"
proof -
  have bad: "status_code (ln_options opts) \<noteq> EXIT_SUCCESS"
    using unrecognized_iff [OF assms(1)] assms(2) by simp
  then have f: "status_code (ln_options opts) = EXIT_FAILURE"
    by (simp add: ln_options_status split: if_splits)
  have "ln_main os argv w =
          Inr (EXIT_FAILURE, \<lparr>ctx = ln_options opts, world = w, trace = []\<rparr>)"
    using ln_main_bad_flags [OF assms(1) bad, of os w] f by simp
  moreover have "flags (ln_options opts) = flags (ln_options (filter known_option opts))"
    unfolding ln_options_def by (rule fold_ln_option_skip)
  ultimately show ?thesis using f by simp
qed

theorem ln_main_unrecognized_flag_witness:
  "getopt ''fLPs'' (tl [''ln'', ''-x'', ''-f'', ''a.txt'', ''dir'']) =
     (''?f'', [''a.txt'', ''dir''])
   \<and> CHR ''?'' \<in> set ''?f''
   \<and> ln_main table_os [''ln'', ''-x'', ''-f'', ''a.txt'', ''dir''] table0 =
       Inr (EXIT_FAILURE,
            \<lparr>ctx = \<lparr>status_code = EXIT_FAILURE, flags = LN_FLAG_REMOVE_DEST\<rparr>,
               world = table0, trace = []\<rparr>)"
proof -
  have g: "getopt ''fLPs'' (tl [''ln'', ''-x'', ''-f'', ''a.txt'', ''dir'']) =
     (''?f'', [''a.txt'', ''dir''])"
    by (simp add: getopt_char_def)
  have q: "CHR ''?'' \<in> set ''?f''" by simp
  have o: "ln_options ''?f'' = \<lparr>status_code = EXIT_FAILURE, flags = LN_FLAG_REMOVE_DEST\<rparr>"
    by (simp add: ln_options_def ln_option_def)
  show ?thesis
    using ln_main_unrecognized_flag [OF g q, of table_os table0] g q
    by (simp only: o simp_thms)
qed

text \<open>
  C5. After an option loop without failure: with fewer than two operands \<^verbatim>\<open>ln_main\<close>
  fails and calls nothing; when \<^verbatim>\<open>stat\<close> says the last operand is a directory (two
  operands included) the run is \<^verbatim>\<open>ln_target_dir\<close> applied to every other operand, from
  the first to the last but one, each from the state the one before left (a fault
  ends the run), and \<^verbatim>\<open>ln_create_link\<close> is not called on the pair; with more than two
  operands and a last operand that is not a directory it fails after the \<^verbatim>\<open>stat\<close>,
  creating no link; with exactly two operands and a last operand that is not a
  directory the result is that of one \<^verbatim>\<open>ln_create_link\<close> on (first, second) operand.
  \<^verbatim>\<open>ln_target_dir\<close> on a source is the path composition followed by the link creation
  on the composed path.
\<close>

theorem ln_main_operand_cases:
  assumes "getopt ''fLPs'' (tl argv) = (opts, operands)"
    and "status_code (ln_options opts) = EXIT_SUCCESS"
  shows "(length operands < 2 \<longrightarrow>
            ln_main os argv w =
              Inr (EXIT_FAILURE,
                   \<lparr>ctx = (ln_options opts)\<lparr>status_code := EXIT_FAILURE\<rparr>, world = w,
                      trace = [Warn False ''must have >=2 file arguments'']\<rparr>))
       \<and> (2 \<le> length operands
            \<and> (\<exists>target_sb. os_stat os w (last operands) = Some target_sb
                   \<and> S_ISDIR (st_mode target_sb)) \<longrightarrow>
            ln_main os argv w =
              (case foldl (\<lambda>r source_file.
                             case r of
                               Inl f \<Rightarrow> Inl f
                             | Inr s \<Rightarrow> ln_target_dir os source_file (last operands) s)
                      (Inr \<lparr>ctx = ln_options opts, world = w,
                             trace = [Stat (last operands) True]\<rparr>)
                      (butlast operands) of
                 Inl f \<Rightarrow> Inl f
               | Inr s2 \<Rightarrow> Inr (status_code (ctx s2), s2)))
       \<and> (2 < length operands
            \<and> \<not> (\<exists>target_sb. os_stat os w (last operands) = Some target_sb
                   \<and> S_ISDIR (st_mode target_sb)) \<longrightarrow>
            (\<exists>msg. ln_main os argv w =
              Inr (EXIT_FAILURE,
                   \<lparr>ctx = (ln_options opts)\<lparr>status_code := EXIT_FAILURE\<rparr>, world = w,
                      trace = [Stat (last operands) (os_stat os w (last operands) \<noteq> None),
                               Warn False msg]\<rparr>)))
       \<and> (length operands = 2
            \<and> \<not> (\<exists>target_sb. os_stat os w (last operands) = Some target_sb
                   \<and> S_ISDIR (st_mode target_sb)) \<longrightarrow>
            (\<exists>s3. s3 = ln_create_link os (operands ! 0) (operands ! 1)
                          \<lparr>ctx = ln_options opts, world = w,
                             trace = [Stat (operands ! 1)
                                        (os_stat os w (operands ! 1) \<noteq> None)]\<rparr>
                 \<and> ln_main os argv w = Inr (status_code (ctx s3), s3)))
       \<and> ln_target_dir os source_file target_dir s =
            (case ln_path_target_concat os target_dir source_file s of
               Inl f \<Rightarrow> Inl f
             | Inr (None, s1) \<Rightarrow> Inr (ln_warn True ''alloc'' s1)
             | Inr (Some path_dest, s1) \<Rightarrow> Inr (ln_create_link os source_file path_dest s1))"
proof (intro conjI impI)
  assume "length operands < 2"
  then show "ln_main os argv w =
              Inr (EXIT_FAILURE,
                   \<lparr>ctx = (ln_options opts)\<lparr>status_code := EXIT_FAILURE\<rparr>, world = w,
                      trace = [Warn False ''must have >=2 file arguments'']\<rparr>)"
    using ln_main_few_operands [OF assms, of os w] by (simp add: ln_warn_def)
next
  assume h: "2 \<le> length operands
            \<and> (\<exists>target_sb. os_stat os w (last operands) = Some target_sb
                   \<and> S_ISDIR (st_mode target_sb))"
  then obtain target_sb where sb: "os_stat os w (last operands) = Some target_sb"
    "S_ISDIR (st_mode target_sb)" by blast
  from h have two: "2 \<le> length operands" by simp
  show "ln_main os argv w =
              (case foldl (\<lambda>r source_file.
                             case r of
                               Inl f \<Rightarrow> Inl f
                             | Inr s \<Rightarrow> ln_target_dir os source_file (last operands) s)
                      (Inr \<lparr>ctx = ln_options opts, world = w,
                             trace = [Stat (last operands) True]\<rparr>)
                      (butlast operands) of
                 Inl f \<Rightarrow> Inl f
               | Inr s2 \<Rightarrow> Inr (status_code (ctx s2), s2))"
    unfolding ln_target_dirs_foldl [symmetric]
    by (rule ln_main_directory [OF assms two sb])
next
  assume h: "2 < length operands
            \<and> \<not> (\<exists>target_sb. os_stat os w (last operands) = Some target_sb
                   \<and> S_ISDIR (st_mode target_sb))"
  then have two: "2 \<le> length operands" and ne: "length operands \<noteq> 2" by simp_all
  from h have nd: "\<forall>target_sb. os_stat os w (last operands) = Some target_sb
           \<longrightarrow> \<not> S_ISDIR (st_mode target_sb)" by blast
  show "\<exists>msg. ln_main os argv w =
              Inr (EXIT_FAILURE,
                   \<lparr>ctx = (ln_options opts)\<lparr>status_code := EXIT_FAILURE\<rparr>, world = w,
                      trace = [Stat (last operands) (os_stat os w (last operands) \<noteq> None),
                               Warn False msg]\<rparr>)"
    using ln_main_not_directory [OF assms two nd] ne
    by (simp add: Let_def ln_warn_def)
next
  assume h: "length operands = 2
            \<and> \<not> (\<exists>target_sb. os_stat os w (last operands) = Some target_sb
                   \<and> S_ISDIR (st_mode target_sb))"
  then have two: "2 \<le> length operands" and eq: "length operands = 2" by simp_all
  from h have nd: "\<forall>target_sb. os_stat os w (last operands) = Some target_sb
           \<longrightarrow> \<not> S_ISDIR (st_mode target_sb)" by blast
  have l: "last operands = operands ! 1"
    using last_operand [OF two] eq by simp
  show "\<exists>s3. s3 = ln_create_link os (operands ! 0) (operands ! 1)
                          \<lparr>ctx = ln_options opts, world = w,
                             trace = [Stat (operands ! 1)
                                        (os_stat os w (operands ! 1) \<noteq> None)]\<rparr>
                 \<and> ln_main os argv w = Inr (status_code (ctx s3), s3)"
    using ln_main_not_directory [OF assms two nd] eq
    unfolding l by (simp add: Let_def)
next
  show "ln_target_dir os source_file target_dir s =
            (case ln_path_target_concat os target_dir source_file s of
               Inl f \<Rightarrow> Inl f
             | Inr (None, s1) \<Rightarrow> Inr (ln_warn True ''alloc'' s1)
             | Inr (Some path_dest, s1) \<Rightarrow> Inr (ln_create_link os source_file path_dest s1))"
    by (simp add: ln_target_dir_def)
qed

theorem ln_main_operand_cases_witness:
  "ln_main table_os [''ln'', ''a.txt''] table0 =
     Inr (EXIT_FAILURE,
          \<lparr>ctx = \<lparr>status_code = EXIT_FAILURE, flags = 0\<rparr>, world = table0,
             trace = [Warn False ''must have >=2 file arguments'']\<rparr>)
   \<and> ln_main table_os [''ln'', ''a.txt'', ''b.txt'', ''dir''] table0 =
     Inr (EXIT_SUCCESS,
          \<lparr>ctx = \<lparr>status_code = EXIT_SUCCESS, flags = 0\<rparr>,
             world = (''dir/b.txt'', \<lparr>st_dev = 1, st_ino = 11, st_mode = 0x81A4\<rparr>)
                     # (''dir/a.txt'', \<lparr>st_dev = 1, st_ino = 10, st_mode = 0x81A4\<rparr>) # table0,
             trace = [Stat ''dir'' True,
                      Alloc 6 True, Alloc 10 True, Lstat ''a.txt'' True,
                      Stat ''dir/a.txt'' False, Link ''a.txt'' ''dir/a.txt'' 0,
                      Alloc 6 True, Alloc 10 True, Lstat ''b.txt'' True,
                      Stat ''dir/b.txt'' False, Link ''b.txt'' ''dir/b.txt'' 0]\<rparr>)
   \<and> ln_main table_os [''ln'', ''a.txt'', ''dir''] table0 =
     Inr (EXIT_SUCCESS,
          \<lparr>ctx = \<lparr>status_code = EXIT_SUCCESS, flags = 0\<rparr>,
             world = (''dir/a.txt'', \<lparr>st_dev = 1, st_ino = 10, st_mode = 0x81A4\<rparr>) # table0,
             trace = [Stat ''dir'' True, Alloc 6 True, Alloc 10 True, Lstat ''a.txt'' True,
                      Stat ''dir/a.txt'' False, Link ''a.txt'' ''dir/a.txt'' 0]\<rparr>)
   \<and> ln_main table_os [''ln'', ''a.txt'', ''b.txt'', ''c.txt''] table0 =
     Inr (EXIT_FAILURE,
          \<lparr>ctx = \<lparr>status_code = EXIT_FAILURE, flags = 0\<rparr>, world = table0,
             trace = [Stat ''c.txt'' False,
                      Warn False
                        ''only 2 operands allowed if final operand not a directory'']\<rparr>)
   \<and> ln_main table_os [''ln'', ''a.txt'', ''c.txt''] table0 =
     Inr (EXIT_SUCCESS,
          \<lparr>ctx = \<lparr>status_code = EXIT_SUCCESS, flags = 0\<rparr>,
             world = (''c.txt'', \<lparr>st_dev = 1, st_ino = 10, st_mode = 0x81A4\<rparr>) # table0,
             trace = [Stat ''c.txt'' False, Lstat ''a.txt'' True, Stat ''c.txt'' False,
                      Link ''a.txt'' ''c.txt'' 0]\<rparr>)"
proof -
  have ok: "status_code (ln_options []) = EXIT_SUCCESS"
    and o: "ln_options [] = \<lparr>status_code = EXIT_SUCCESS, flags = 0\<rparr>"
    by (simp_all add: ln_options_def EXIT_SUCCESS_def)
  have g1: "getopt ''fLPs'' (tl [''ln'', ''a.txt'']) = ([], [''a.txt''])"
    and g2: "getopt ''fLPs'' (tl [''ln'', ''a.txt'', ''dir'']) = ([], [''a.txt'', ''dir''])"
    and g3: "getopt ''fLPs'' (tl [''ln'', ''a.txt'', ''b.txt'', ''c.txt'']) =
               ([], [''a.txt'', ''b.txt'', ''c.txt''])"
    and g4: "getopt ''fLPs'' (tl [''ln'', ''a.txt'', ''c.txt'']) = ([], [''a.txt'', ''c.txt''])"
    and g5: "getopt ''fLPs'' (tl [''ln'', ''a.txt'', ''b.txt'', ''dir'']) =
               ([], [''a.txt'', ''b.txt'', ''dir''])"
    by simp_all
  have st_dir: "os_stat table_os table0 ''dir'' = Some \<lparr>st_dev = 1, st_ino = 13, st_mode = 0x41ED\<rparr>"
    and st_c: "os_stat table_os table0 ''c.txt'' = None"
    by (simp_all add: table_os_def table0_def)
  have isdir: "S_ISDIR (st_mode \<lparr>st_dev = 1, st_ino = 13, st_mode = 0x41ED\<rparr>)"
    by (simp add: S_ISDIR_def S_IFMT_def S_IFDIR_def)
  have b: "basename ''a.txt'' = ''a.txt''" "basename ''b.txt'' = ''b.txt''"
    by (simp_all add: basename_def strip_trailing_slashes_def)
  have c1: "ln_main table_os [''ln'', ''a.txt''] table0 =
     Inr (EXIT_FAILURE,
          \<lparr>ctx = \<lparr>status_code = EXIT_FAILURE, flags = 0\<rparr>, world = table0,
             trace = [Warn False ''must have >=2 file arguments'']\<rparr>)"
    using ln_main_operand_cases [OF g1 ok, of table_os table0] by (simp add: o)
  have c5: "ln_main table_os [''ln'', ''a.txt'', ''b.txt'', ''dir''] table0 =
     Inr (EXIT_SUCCESS,
          \<lparr>ctx = \<lparr>status_code = EXIT_SUCCESS, flags = 0\<rparr>,
             world = (''dir/b.txt'', \<lparr>st_dev = 1, st_ino = 11, st_mode = 0x81A4\<rparr>)
                     # (''dir/a.txt'', \<lparr>st_dev = 1, st_ino = 10, st_mode = 0x81A4\<rparr>) # table0,
             trace = [Stat ''dir'' True,
                      Alloc 6 True, Alloc 10 True, Lstat ''a.txt'' True,
                      Stat ''dir/a.txt'' False, Link ''a.txt'' ''dir/a.txt'' 0,
                      Alloc 6 True, Alloc 10 True, Lstat ''b.txt'' True,
                      Stat ''dir/b.txt'' False, Link ''b.txt'' ''dir/b.txt'' 0]\<rparr>)"
    using ln_main_operand_cases [OF g5 ok, of table_os table0] st_dir isdir
    by (simp add: o ln_target_dir_def ln_path_target_concat_def sys_alloc_def b strlen_def
          si_add_size_t_def c_index_def Let_def
          ln_create_link_def ln_remove_dest_def sys_lstat_def sys_stat_def sys_link_def
          S_ISLNK_def S_IFMT_def S_IFLNK_def LN_FLAG_SYMBOLIC_def table_os_def table0_def
          table_add_def EXIT_SUCCESS_def)
  have c2: "ln_main table_os [''ln'', ''a.txt'', ''dir''] table0 =
     Inr (EXIT_SUCCESS,
          \<lparr>ctx = \<lparr>status_code = EXIT_SUCCESS, flags = 0\<rparr>,
             world = (''dir/a.txt'', \<lparr>st_dev = 1, st_ino = 10, st_mode = 0x81A4\<rparr>) # table0,
             trace = [Stat ''dir'' True, Alloc 6 True, Alloc 10 True, Lstat ''a.txt'' True,
                      Stat ''dir/a.txt'' False, Link ''a.txt'' ''dir/a.txt'' 0]\<rparr>)"
    using ln_main_operand_cases [OF g2 ok, of table_os table0] st_dir isdir
    by (simp add: o ln_target_dir_def ln_path_target_concat_def sys_alloc_def b strlen_def
          si_add_size_t_def c_index_def Let_def
          ln_create_link_def ln_remove_dest_def sys_lstat_def sys_stat_def sys_link_def
          S_ISLNK_def S_IFMT_def S_IFLNK_def LN_FLAG_SYMBOLIC_def table_os_def table0_def
          table_add_def EXIT_SUCCESS_def)
  have c3: "ln_main table_os [''ln'', ''a.txt'', ''b.txt'', ''c.txt''] table0 =
     Inr (EXIT_FAILURE,
          \<lparr>ctx = \<lparr>status_code = EXIT_FAILURE, flags = 0\<rparr>, world = table0,
             trace = [Stat ''c.txt'' False,
                      Warn False
                        ''only 2 operands allowed if final operand not a directory'']\<rparr>)"
    by (simp add: ln_main_def ln_options_def Let_def sys_stat_def table_os_def
        table0_def ln_warn_def EXIT_SUCCESS_def EXIT_FAILURE_def)
  have c4: "ln_main table_os [''ln'', ''a.txt'', ''c.txt''] table0 =
     Inr (EXIT_SUCCESS,
          \<lparr>ctx = \<lparr>status_code = EXIT_SUCCESS, flags = 0\<rparr>,
             world = (''c.txt'', \<lparr>st_dev = 1, st_ino = 10, st_mode = 0x81A4\<rparr>) # table0,
             trace = [Stat ''c.txt'' False, Lstat ''a.txt'' True, Stat ''c.txt'' False,
                      Link ''a.txt'' ''c.txt'' 0]\<rparr>)"
    using ln_main_operand_cases [OF g4 ok, of table_os table0] st_c
    by (simp add: o ln_create_link_def ln_remove_dest_def sys_lstat_def sys_stat_def
          sys_link_def S_ISLNK_def S_IFMT_def S_IFLNK_def LN_FLAG_SYMBOLIC_def table_os_def
          table0_def table_add_def Let_def EXIT_SUCCESS_def)
  have c3': "\<exists>msg. ln_main table_os [''ln'', ''a.txt'', ''b.txt'', ''c.txt''] table0 =
     Inr (EXIT_FAILURE,
          \<lparr>ctx = \<lparr>status_code = EXIT_FAILURE, flags = 0\<rparr>, world = table0,
             trace = [Stat ''c.txt'' False, Warn False msg]\<rparr>)"
    using ln_main_operand_cases [OF g3 ok, of table_os table0] st_c by (simp add: o)
  show ?thesis using c1 c5 c2 c3 c3' c4 by (intro conjI)
qed






end
